theory Spec2Isabelle
  imports Complex_Main "HOL-Library.Word" "HOL-Library.AList" "HOL-Library.Monad_Syntax"
begin

section \<open>StellarNova limit-order engine: executor, price conversion, order codec\<close>

text \<open>
  A shallow embedding of the off-chain half of the StellarNova limit-order engine:
  the backend service \<^verbatim>\<open>LimitOrderExecutor\<close> (services/limitOrderExecutor.ts), the backend
  entry point and its configuration (index.ts, config.ts), and the two frontend functions
  \<^verbatim>\<open>calculateTargetPriceWithDecimals\<close> and \<^verbatim>\<open>getUserPendingOrders\<close>
  (frontend/src/lib/stellarnova/limitOrders.ts).

  Conventions of the embedding.
  \<^item> A Node \<^verbatim>\<open>Buffer\<close> is a list of bytes (\<open>8 word\<close>). A read that Node rejects with
    \<^verbatim>\<open>ERR_OUT_OF_RANGE\<close> is \<open>None\<close>; \<^verbatim>\<open>slice\<close> and \<^verbatim>\<open>subarray\<close> clamp to the buffer.
  \<^item> A JavaScript \<^verbatim>\<open>number\<close> that holds a price, a reserve or a parsed integer is an
    IEEE-754 double (type \<open>number\<close>): every multiplication, division and conversion rounds
    to the nearest double, ties to even, with overflow to the infinities, gradual underflow,
    signed zero and NaN. Counters, millisecond timestamps and token decimals are integers
    below \<open>2^53\<close>, which doubles hold exactly: they are \<open>nat\<close> or \<open>int\<close>.
  \<^item> A decimal or hexadecimal string that only carries a number is kept as that number,
    except where the code returns the hexadecimal text itself.
  \<^item> A JavaScript string decoded from UTF-8 bytes is kept as the list of those bytes
    (\<open>string\<close>); this is exact for valid UTF-8 and in particular for ASCII identifiers.
  \<^item> Every network call is an input of the model: the environment records say what the
    chain and the exchange answered.
\<close>

subsection \<open>Buffers\<close>

type_synonym byte = "8 word"
type_synonym buffer = "byte list"

text \<open>Big-endian value of a byte sequence.\<close>

definition be_nat :: "buffer \<Rightarrow> nat" where
  "be_nat bs = foldl (\<lambda>acc b. acc * 256 + unat b) 0 bs"

text \<open>\<^verbatim>\<open>buf.slice(a, b)\<close> and \<^verbatim>\<open>buf.subarray(a, b)\<close> for \<open>0 \<le> a\<close>: clamped, never failing.\<close>

definition buffer_slice :: "buffer \<Rightarrow> nat \<Rightarrow> nat \<Rightarrow> buffer" where
  "buffer_slice buf a b = take (b - a) (drop a buf)"

text \<open>\<^verbatim>\<open>readUIntBE\<close> family: Node throws a RangeError when the read leaves the buffer.\<close>

definition readUIntBE :: "nat \<Rightarrow> buffer \<Rightarrow> nat \<Rightarrow> nat option" where
  "readUIntBE w buf off =
     (if off + w \<le> length buf then Some (be_nat (take w (drop off buf))) else None)"

definition readBigUInt64BE :: "buffer \<Rightarrow> nat \<Rightarrow> nat option" where
  "readBigUInt64BE = readUIntBE 8"

definition readUInt32BE :: "buffer \<Rightarrow> nat \<Rightarrow> nat option" where
  "readUInt32BE = readUIntBE 4"

definition readUInt16BE :: "buffer \<Rightarrow> nat \<Rightarrow> nat option" where
  "readUInt16BE = readUIntBE 2"

definition readUInt8 :: "buffer \<Rightarrow> nat \<Rightarrow> nat option" where
  "readUInt8 = readUIntBE 1"

text \<open>\<^verbatim>\<open>buf.toString('hex')\<close>: two lower-case digits per byte.\<close>

definition hex_digit :: "nat \<Rightarrow> char" where
  "hex_digit d = (''0123456789abcdef'') ! (d mod 16)"

definition toString_hex :: "buffer \<Rightarrow> string" where
  "toString_hex bs = concat (map (\<lambda>b. [hex_digit (unat b div 16), hex_digit (unat b mod 16)]) bs)"

text \<open>\<^verbatim>\<open>buf.toString('utf8')\<close>, the string kept as its UTF-8 bytes.\<close>

definition toString_utf8 :: "buffer \<Rightarrow> string" where
  "toString_utf8 bs = map (\<lambda>b. char_of (unat b)) bs"

text \<open>
  \<^verbatim>\<open>Number(x)\<close> for a non-negative \<^verbatim>\<open>BigInt\<close>: exact below \<open>2^53\<close>, otherwise
  rounded to the nearest double (53-bit significand), ties to even.
\<close>

fun bit_length :: "nat \<Rightarrow> nat" where
  "bit_length n = (if n = 0 then 0 else Suc (bit_length (n div 2)))"

declare bit_length.simps [simp del]

definition Number_of_BigInt :: "nat \<Rightarrow> nat" where
  "Number_of_BigInt n =
     (if n < 2 ^ 53 then n
      else let e = bit_length n - 53;
               q = n div 2 ^ e;
               r = n mod 2 ^ e;
               half = 2 ^ (e - 1)
           in if r < half \<or> (r = half \<and> even q) then q * 2 ^ e else (q + 1) * 2 ^ e)"

subsection \<open>The executor's order decoder (getLimitOrder)\<close>

text \<open>The \<^verbatim>\<open>LimitOrder\<close> interface of limitOrderExecutor.ts.\<close>

record LimitOrder =
  order_id :: nat
  user :: string
  from_token :: string
  from_amount :: nat
  to_token :: string
  target_price_numerator :: nat
  target_price_denominator :: nat
  slippage_bp :: nat
  created_at :: nat
  expires_at :: nat
  status :: nat

text \<open>
  The three closures of \<^verbatim>\<open>getLimitOrder\<close> that advance the shared \<^verbatim>\<open>offset\<close>; each
  returns the value read and the new offset, or \<open>None\<close> where the JavaScript throws.
\<close>

definition readU64 :: "buffer \<Rightarrow> nat \<Rightarrow> (nat \<times> nat) option" where
  "readU64 buffer offset =
     (case readBigUInt64BE buffer offset of
        None \<Rightarrow> None
      | Some v \<Rightarrow> Some (v, offset + 8))"

definition readLengthPrefixed :: "buffer \<Rightarrow> nat \<Rightarrow> (buffer \<times> nat) option" where
  "readLengthPrefixed buffer offset =
     (case readUInt32BE buffer offset of
        None \<Rightarrow> None
      | Some len \<Rightarrow> Some (buffer_slice buffer (offset + 4) (offset + 4 + len), offset + 4 + len))"

text \<open>
  \<^verbatim>\<open>readBigUint\<close>: a zero length is the number 0; otherwise the bytes are parsed as
  \<^verbatim>\<open>BigInt('0x' + hex)\<close>, which throws a SyntaxError when the (clamped) slice is empty.
\<close>

definition readBigUint :: "buffer \<Rightarrow> nat \<Rightarrow> (nat \<times> nat) option" where
  "readBigUint buffer offset =
     (case readUInt32BE buffer offset of
        None \<Rightarrow> None
      | Some len \<Rightarrow>
          if len = 0 then Some (0, offset + 4)
          else let data = buffer_slice buffer (offset + 4) (offset + 4 + len)
               in if data = [] then None
                  else Some (be_nat data, offset + 4 + len))"

text \<open>
  \<^verbatim>\<open>new Date(ms)\<close>: a time value beyond \<open>8.64e15\<close> milliseconds is an Invalid Date.
\<close>

datatype js_Date = Date nat | InvalidDate

definition new_Date :: "nat \<Rightarrow> js_Date" where
  "new_Date ms = (if ms \<le> 8640000000000000 then Date ms else InvalidDate)"

text \<open>
  \<^verbatim>\<open>date.toISOString()\<close> throws a RangeError on an Invalid Date; the result is the time value
  that the string shows.
\<close>

definition toISOString :: "js_Date \<Rightarrow> nat option" where
  "toISOString d = (case d of Date ms \<Rightarrow> Some ms | InvalidDate \<Rightarrow> None)"

text \<open>
  The parsing part of \<^verbatim>\<open>getLimitOrder\<close> (from \<^verbatim>\<open>Buffer.from(returnData[0], 'base64')\<close>
  on). The returned \<^verbatim>\<open>order_id\<close> is the queried id, not the parsed one. After the last
  field the function logs the decoded order, and the log evaluates
  \<^verbatim>\<open>new Date(Number(expiresAt) * 1000).toISOString()\<close> inside the \<^verbatim>\<open>try\<close>: when it throws,
  \<^verbatim>\<open>getLimitOrder\<close> returns null. The product is written on \<open>nat\<close>: an exact product up to
  \<open>8.64e15\<close> is below \<open>2^53\<close> and the double product equals it, and an exact product beyond
  \<open>8.64e15\<close> is a multiple of 1000 whose double product is beyond \<open>8.64e15\<close> too.
\<close>

definition parseLimitOrder :: "nat \<Rightarrow> buffer \<Rightarrow> LimitOrder option" where
  "parseLimitOrder orderId buffer = do {
      (parsedOrderId, o1) \<leftarrow> readU64 buffer 0;
      let userAddress = buffer_slice buffer o1 (o1 + 32);
      let o2 = o1 + 32;
      (fromToken, o3) \<leftarrow> readLengthPrefixed buffer o2;
      (fromAmount, o4) \<leftarrow> readBigUint buffer o3;
      (toToken, o5) \<leftarrow> readLengthPrefixed buffer o4;
      (targetPriceNum, o6) \<leftarrow> readBigUint buffer o5;
      (targetPriceDenom, o7) \<leftarrow> readBigUint buffer o6;
      (slippageBp, o8) \<leftarrow> readU64 buffer o7;
      (expiresAt, o9) \<leftarrow> readU64 buffer o8;
      st \<leftarrow> readUInt8 buffer o9;
      (createdAt, o10) \<leftarrow> readU64 buffer (o9 + 1);
      logged \<leftarrow> toISOString (new_Date (Number_of_BigInt expiresAt * 1000));
      Some \<lparr> order_id = orderId,
             user = toString_hex userAddress,
             from_token = toString_utf8 fromToken,
             from_amount = fromAmount,
             to_token = toString_utf8 toToken,
             target_price_numerator = targetPriceNum,
             target_price_denominator = targetPriceDenom,
             slippage_bp = Number_of_BigInt slippageBp,
             created_at = Number_of_BigInt createdAt,
             expires_at = Number_of_BigInt expiresAt,
             status = st \<rparr>
    }"

text \<open>
  The answer of the chain API to a \<^verbatim>\<open>/query\<close> call, after JSON and base64 decoding:
  \<open>None\<close> when the request or the JSON parsing failed.
\<close>

record query_response =
  returnData :: "buffer list option"
  statusCode :: nat

definition getLimitOrder :: "query_response option \<Rightarrow> nat \<Rightarrow> LimitOrder option" where
  "getLimitOrder response orderId =
     (case response of
        None \<Rightarrow> None
      | Some data \<Rightarrow>
          (case returnData data of
             None \<Rightarrow> None
           | Some rd \<Rightarrow>
               if rd = [] \<or> statusCode data = 500 then None
               else parseLimitOrder orderId (hd rd)))"

subsection \<open>The frontend's order decoder (getUserPendingOrders)\<close>

text \<open>
  The \<^verbatim>\<open>LimitOrder\<close> interface of limitOrders.ts; the field names carry the prefix
  \<open>fe_\<close>. The \<^verbatim>\<open>user\<close> field is a bech32 string in the source; it is kept as the
  32-byte public key that the string encodes, and so is the \<^verbatim>\<open>userAddress\<close> argument.
\<close>

record FrontendLimitOrder =
  fe_orderId :: nat
  fe_user :: buffer
  fe_fromToken :: string
  fe_toToken :: string
  fe_fromAmount :: string
  fe_targetPriceNum :: string
  fe_targetPriceDenom :: string
  fe_slippageBp :: nat
  fe_expiresAt :: js_Date
  fe_status :: string

text \<open>
  One iteration of the decoding loop: the order is pushed, skipped by \<^verbatim>\<open>continue\<close>
  because it belongs to another user, or dropped by the \<^verbatim>\<open>catch\<close> of the iteration.
  \<^verbatim>\<open>Address.newFromHex\<close> rejects a key that is not 32 bytes long.
\<close>

datatype decode_step = Pushed FrontendLimitOrder | NotUsersOrder | DecodeFailed

definition decodeFrontendFields :: "buffer \<Rightarrow> nat \<Rightarrow> buffer \<Rightarrow> FrontendLimitOrder option" where
  "decodeFrontendFields buffer orderId userBytes = do {
      let offset = 40;
      fromTokenLen \<leftarrow> readUInt32BE buffer offset;
      let offset = offset + 4;
      let fromToken = toString_utf8 (buffer_slice buffer offset (offset + fromTokenLen));
      let offset = offset + fromTokenLen;
      fromAmountLen \<leftarrow> readUInt32BE buffer offset;
      let offset = offset + 4;
      let fromAmount = toString_hex (buffer_slice buffer offset (offset + fromAmountLen));
      let offset = offset + fromAmountLen;
      toTokenLen \<leftarrow> readUInt32BE buffer offset;
      let offset = offset + 4;
      let toToken = toString_utf8 (buffer_slice buffer offset (offset + toTokenLen));
      let offset = offset + toTokenLen;
      priceNumLen \<leftarrow> readUInt32BE buffer offset;
      let offset = offset + 4;
      let targetPriceNum = toString_hex (buffer_slice buffer offset (offset + priceNumLen));
      let offset = offset + priceNumLen;
      priceDenomLen \<leftarrow> readUInt32BE buffer offset;
      let offset = offset + 4;
      let targetPriceDenom = toString_hex (buffer_slice buffer offset (offset + priceDenomLen));
      let offset = offset + priceDenomLen;
      slippageBp \<leftarrow> readUInt16BE buffer offset;
      let offset = offset + 2;
      let offset = offset + 8;
      expiresAtTimestamp \<leftarrow> readBigUInt64BE buffer offset;
      Some \<lparr> fe_orderId = orderId,
             fe_user = userBytes,
             fe_fromToken = fromToken,
             fe_toToken = toToken,
             fe_fromAmount = fromAmount,
             fe_targetPriceNum = targetPriceNum,
             fe_targetPriceDenom = targetPriceDenom,
             fe_slippageBp = slippageBp,
             fe_expiresAt = new_Date (Number_of_BigInt expiresAtTimestamp * 1000),
             fe_status = ''Pending'' \<rparr>
    }"

definition decodeFrontendOrder :: "buffer \<Rightarrow> buffer \<Rightarrow> decode_step" where
  "decodeFrontendOrder userAddress buffer =
     (case readBigUInt64BE buffer 0 of
        None \<Rightarrow> DecodeFailed
      | Some rawId \<Rightarrow>
          let orderId = Number_of_BigInt rawId;
              userBytes = buffer_slice buffer 8 (8 + 32)
          in if length userBytes \<noteq> 32 then DecodeFailed
             else if userBytes \<noteq> userAddress then NotUsersOrder
             else (case decodeFrontendFields buffer orderId userBytes of
                     None \<Rightarrow> DecodeFailed
                   | Some ord \<Rightarrow> Pushed ord))"

text \<open>
  The answer to the frontend's \<^verbatim>\<open>getPendingOrders\<close> query: \<open>None\<close> when \<^verbatim>\<open>fetch\<close> or
  the JSON parsing throws.
\<close>

record pending_response =
  ok :: bool
  returnCode :: string
  pendingData :: "buffer list option"

fun decodeAll :: "buffer \<Rightarrow> buffer list \<Rightarrow> FrontendLimitOrder list" where
  "decodeAll userAddress [] = []"
| "decodeAll userAddress (encodedOrder # rest) =
     (case decodeFrontendOrder userAddress encodedOrder of
        Pushed ord \<Rightarrow> ord # decodeAll userAddress rest
      | NotUsersOrder \<Rightarrow> decodeAll userAddress rest
      | DecodeFailed \<Rightarrow> decodeAll userAddress rest)"

definition getUserPendingOrders :: "pending_response option \<Rightarrow> buffer \<Rightarrow> FrontendLimitOrder list" where
  "getUserPendingOrders response userAddress =
     (case response of
        None \<Rightarrow> []
      | Some data \<Rightarrow>
          if \<not> ok data then []
          else if returnCode data \<noteq> ''ok'' then []
          else (case pendingData data of
                  None \<Rightarrow> []
                | Some rd \<Rightarrow> decodeAll userAddress rd))"

subsection \<open>The on-chain order and its serialisation\<close>

text \<open>
  Modelled from the spec: the order contract (Rust) and its encoder are not among the
  sources; the record and the encoding below follow the specification's data model and
  its table "On-chain Order serialisation (nested, big-endian)", which agrees with the
  \<^verbatim>\<open>LimitOrder\<close> struct quoted in ARCHITECTURE.md.
\<close>

datatype OrderStatus = Pending | Executed | Cancelled | Expired

record Order =
  ord_order_id :: "64 word"
  ord_owner :: buffer
  ord_from_token :: string
  ord_from_amount :: nat
  ord_to_token :: string
  ord_target_num :: nat
  ord_target_denom :: nat
  ord_slippage_bp :: "64 word"
  ord_created_at :: "64 word"
  ord_expires_at :: "64 word"
  ord_status :: OrderStatus

text \<open>Modelled from the spec: status byte \<open>0=Pending, 1=Executed, 2=Cancelled, 3=Expired\<close>.\<close>

fun status_code :: "OrderStatus \<Rightarrow> nat" where
  "status_code Pending = 0"
| "status_code Executed = 1"
| "status_code Cancelled = 2"
| "status_code Expired = 3"

text \<open>Modelled from the spec: a fixed-width big-endian unsigned integer of \<open>w\<close> bytes.\<close>

fun nat_to_be :: "nat \<Rightarrow> nat \<Rightarrow> buffer" where
  "nat_to_be 0 n = []"
| "nat_to_be (Suc w) n = nat_to_be w (n div 256) @ [of_nat (n mod 256)]"

text \<open>Modelled from the spec: the big-endian magnitude of a big unsigned integer, without
  leading zero bytes (zero is the empty sequence).\<close>

fun magnitude_bytes :: "nat \<Rightarrow> buffer" where
  "magnitude_bytes n = (if n = 0 then [] else magnitude_bytes (n div 256) @ [of_nat (n mod 256)])"

declare magnitude_bytes.simps [simp del]

text \<open>Modelled from the spec: "4-byte length, then bytes".\<close>

definition length_prefixed :: "buffer \<Rightarrow> buffer" where
  "length_prefixed bs = nat_to_be 4 (length bs) @ bs"

text \<open>Modelled from the spec: the bytes of a token identifier.\<close>

definition utf8_bytes :: "string \<Rightarrow> buffer" where
  "utf8_bytes s = map (\<lambda>c. of_nat (of_char c)) s"

text \<open>Modelled from the spec: the fields in the order of the serialisation table.\<close>

definition encode_order :: "Order \<Rightarrow> buffer" where
  "encode_order ord =
     nat_to_be 8 (unat (ord_order_id ord))
     @ ord_owner ord
     @ length_prefixed (utf8_bytes (ord_from_token ord))
     @ length_prefixed (magnitude_bytes (ord_from_amount ord))
     @ length_prefixed (utf8_bytes (ord_to_token ord))
     @ length_prefixed (magnitude_bytes (ord_target_num ord))
     @ length_prefixed (magnitude_bytes (ord_target_denom ord))
     @ nat_to_be 8 (unat (ord_slippage_bp ord))
     @ nat_to_be 8 (unat (ord_expires_at ord))
     @ nat_to_be 1 (status_code (ord_status ord))
     @ nat_to_be 8 (unat (ord_created_at ord))"

text \<open>
  Modelled from the spec: a well-formed order satisfies the constraints of the data model
  (32-byte owner, positive amount, distinct tokens, positive denominator, slippage at most
  10000 basis points, expiry after creation; the 64-bit fields are 64-bit by their type).
  It can also be serialised: every length-prefixed field is shorter than \<open>2^32\<close> bytes and
  the token identifiers are ASCII.
\<close>

definition well_formed_order :: "Order \<Rightarrow> bool" where
  "well_formed_order ord \<longleftrightarrow>
     length (ord_owner ord) = 32
     \<and> 0 < ord_from_amount ord
     \<and> ord_from_token ord \<noteq> ord_to_token ord
     \<and> 0 < ord_target_denom ord
     \<and> unat (ord_slippage_bp ord) \<le> 10000
     \<and> ord_created_at ord < ord_expires_at ord
     \<and> length (ord_from_token ord) < 2 ^ 32
     \<and> length (ord_to_token ord) < 2 ^ 32
     \<and> list_all (\<lambda>c. (of_char c :: nat) < 128) (ord_from_token ord)
     \<and> list_all (\<lambda>c. (of_char c :: nat) < 128) (ord_to_token ord)
     \<and> length (magnitude_bytes (ord_from_amount ord)) < 2 ^ 32
     \<and> length (magnitude_bytes (ord_target_num ord)) < 2 ^ 32
     \<and> length (magnitude_bytes (ord_target_denom ord)) < 2 ^ 32"

text \<open>
  Modelled from the spec: the fields of an on-chain order as the executor's
  \<^verbatim>\<open>LimitOrder\<close> record presents them (numbers as numbers, the owner in hexadecimal, the
  status as its code).
\<close>

definition order_view :: "Order \<Rightarrow> LimitOrder" where
  "order_view ord =
     \<lparr> order_id = unat (ord_order_id ord),
       user = toString_hex (ord_owner ord),
       from_token = ord_from_token ord,
       from_amount = ord_from_amount ord,
       to_token = ord_to_token ord,
       target_price_numerator = ord_target_num ord,
       target_price_denominator = ord_target_denom ord,
       slippage_bp = unat (ord_slippage_bp ord),
       created_at = unat (ord_created_at ord),
       expires_at = unat (ord_expires_at ord),
       status = status_code (ord_status ord) \<rparr>"

subsection \<open>JavaScript numbers\<close>

text \<open>
  A \<^verbatim>\<open>number\<close> is an IEEE-754 double: a finite value (kept as the real number it denotes;
  \<open>Finite 0\<close> is \<open>+0\<close>), \<open>-0\<close>, the two infinities, or NaN.
\<close>

datatype number = Finite real | NegZero | PosInf | NegInf | NaN

definition pow2 :: "int \<Rightarrow> real" where
  "pow2 e = (if 0 \<le> e then 2 ^ nat e else 1 / 2 ^ nat (- e))"

text \<open>For \<open>x > 0\<close>, the exponent \<open>e\<close> with \<open>2^e \<le> x < 2^(e+1)\<close>.\<close>

definition ilog2 :: "real \<Rightarrow> int" where
  "ilog2 x =
     (if 1 \<le> x then int (bit_length (nat \<lfloor>x\<rfloor>)) - 1
      else - int (bit_length (nat \<lceil>1 / x\<rceil> - 1)))"

definition roundHalfEven :: "real \<Rightarrow> int" where
  "roundHalfEven x =
     (let f = \<lfloor>x\<rfloor>;
          r = x - of_int f
      in if r < 1 / 2 then f
         else if 1 / 2 < r then f + 1
         else if even f then f
         else f + 1)"

text \<open>
  The double nearest to a positive real, ties to even: a significand of 53 bits above
  \<open>2^-1022\<close>, multiples of \<open>2^-1074\<close> below (subnormal numbers, down to zero), and
  \<^verbatim>\<open>Infinity\<close> when the rounded value reaches \<open>2^1024\<close>.
\<close>

definition roundPositive :: "real \<Rightarrow> number" where
  "roundPositive x =
     (let e = max (ilog2 x) (- 1022) - 52;
          m = roundHalfEven (x / pow2 e);
          y = of_int m * pow2 e
      in if 2 ^ 1024 \<le> y then PosInf else Finite y)"

definition negate :: "number \<Rightarrow> number" where
  "negate x =
     (case x of
        Finite r \<Rightarrow> if r = 0 then NegZero else Finite (- r)
      | NegZero \<Rightarrow> Finite 0
      | PosInf \<Rightarrow> NegInf
      | NegInf \<Rightarrow> PosInf
      | NaN \<Rightarrow> NaN)"

text \<open>The double nearest to a real; a negative real that rounds to zero gives \<open>-0\<close>.\<close>

definition toDouble :: "real \<Rightarrow> number" where
  "toDouble x =
     (if x = 0 then Finite 0
      else if 0 < x then roundPositive x
      else negate (roundPositive (- x)))"

definition isZero :: "number \<Rightarrow> bool" where
  "isZero x \<longleftrightarrow> x = Finite 0 \<or> x = NegZero"

definition isInfinite :: "number \<Rightarrow> bool" where
  "isInfinite x \<longleftrightarrow> x = PosInf \<or> x = NegInf"

text \<open>The sign bit (of no use on NaN).\<close>

definition isNegative :: "number \<Rightarrow> bool" where
  "isNegative x =
     (case x of
        Finite r \<Rightarrow> r < 0
      | NegZero \<Rightarrow> True
      | PosInf \<Rightarrow> False
      | NegInf \<Rightarrow> True
      | NaN \<Rightarrow> False)"

definition finiteValue :: "number \<Rightarrow> real" where
  "finiteValue x = (case x of Finite r \<Rightarrow> r | NegZero \<Rightarrow> 0 | PosInf \<Rightarrow> 0 | NegInf \<Rightarrow> 0 | NaN \<Rightarrow> 0)"

text \<open>\<^verbatim>\<open>x * y\<close>.\<close>

definition js_mul :: "number \<Rightarrow> number \<Rightarrow> number" where
  "js_mul x y =
     (if x = NaN \<or> y = NaN then NaN
      else if (isInfinite x \<and> isZero y) \<or> (isZero x \<and> isInfinite y) then NaN
      else if isInfinite x \<or> isInfinite y
           then (if isNegative x \<noteq> isNegative y then NegInf else PosInf)
      else if isZero x \<or> isZero y
           then (if isNegative x \<noteq> isNegative y then NegZero else Finite 0)
      else toDouble (finiteValue x * finiteValue y))"

text \<open>\<^verbatim>\<open>x / y\<close>.\<close>

definition js_div :: "number \<Rightarrow> number \<Rightarrow> number" where
  "js_div x y =
     (if x = NaN \<or> y = NaN then NaN
      else if (isInfinite x \<and> isInfinite y) \<or> (isZero x \<and> isZero y) then NaN
      else if isInfinite x \<or> isZero y
           then (if isNegative x \<noteq> isNegative y then NegInf else PosInf)
      else if isInfinite y \<or> isZero x
           then (if isNegative x \<noteq> isNegative y then NegZero else Finite 0)
      else toDouble (finiteValue x / finiteValue y))"

text \<open>\<^verbatim>\<open>x <= y\<close>: false as soon as one side is NaN; the two zeros are equal.\<close>

definition js_le :: "number \<Rightarrow> number \<Rightarrow> bool" where
  "js_le x y \<longleftrightarrow>
     x \<noteq> NaN \<and> y \<noteq> NaN
     \<and> (x = NegInf \<or> y = PosInf
        \<or> (\<not> isInfinite x \<and> \<not> isInfinite y \<and> finiteValue x \<le> finiteValue y))"

text \<open>\<^verbatim>\<open>!x\<close> on a number: true on NaN and on the two zeros.\<close>

definition isFalsy :: "number \<Rightarrow> bool" where
  "isFalsy x \<longleftrightarrow> x = NaN \<or> isZero x"

text \<open>\<^verbatim>\<open>Math.floor(x)\<close>.\<close>

definition Math_floor :: "number \<Rightarrow> number" where
  "Math_floor x = (case x of Finite r \<Rightarrow> Finite (of_int \<lfloor>r\<rfloor>) | NegZero \<Rightarrow> NegZero
                    | PosInf \<Rightarrow> PosInf | NegInf \<Rightarrow> NegInf | NaN \<Rightarrow> NaN)"

text \<open>
  \<^verbatim>\<open>BigInt(x)\<close> on a number: a RangeError (\<open>None\<close>) unless \<open>x\<close> is an integer.
\<close>

definition BigInt_of_number :: "number \<Rightarrow> int option" where
  "BigInt_of_number x =
     (case x of
        Finite r \<Rightarrow> if r = of_int \<lfloor>r\<rfloor> then Some \<lfloor>r\<rfloor> else None
      | NegZero \<Rightarrow> Some 0
      | PosInf \<Rightarrow> None
      | NegInf \<Rightarrow> None
      | NaN \<Rightarrow> None)"

text \<open>The exact power \<open>10^e\<close> for an integer \<open>e\<close>.\<close>

definition pow10 :: "int \<Rightarrow> real" where
  "pow10 e = (if 0 \<le> e then 10 ^ nat e else 1 / 10 ^ nat (- e))"

text \<open>
  \<^verbatim>\<open>Math.pow(10, e)\<close> for an integer \<open>e\<close>: the double nearest to \<open>10^e\<close>. The powers
  \<open>10^0\<close> to \<open>10^22\<close> are doubles themselves. (ECMAScript leaves the precision of
  \<^verbatim>\<open>Math.pow\<close> to the engine; outside \<open>10^0\<close> to \<open>10^22\<close> the correctly rounded value
  is taken.)
\<close>

definition Math_pow10 :: "int \<Rightarrow> number" where
  "Math_pow10 e = (if 0 \<le> e \<and> e \<le> 22 then Finite (10 ^ nat e) else toDouble (pow10 e))"

text \<open>
  \<^verbatim>\<open>parseFloat(s)\<close> where \<open>s\<close> is the decimal string of a natural number: the double
  nearest to it, \<^verbatim>\<open>Infinity\<close> beyond the range of doubles.
\<close>

definition parseFloat_decimal :: "nat \<Rightarrow> number" where
  "parseFloat_decimal n = toDouble (real n)"

subsection \<open>Price conversion\<close>

text \<open>
  The frontend's \<^verbatim>\<open>calculateTargetPriceWithDecimals\<close>. It has no failing path: the
  safe-range test only logs a warning. The token decimals are integers.
\<close>

record target_price =
  numerator :: number
  denominator :: number

definition calculateTargetPriceWithDecimals :: "number \<Rightarrow> int \<Rightarrow> int \<Rightarrow> target_price" where
  "calculateTargetPriceWithDecimals targetPrice fromDecimals toDecimals =
     (let decimalAdjustment = toDecimals - fromDecimals;
          MAX_SAFE_EXPONENT = 15;
          PRECISION = min 6 (MAX_SAFE_EXPONENT - \<bar>decimalAdjustment\<bar>);
          denominator' = Math_pow10 PRECISION;
          totalExponent = PRECISION + decimalAdjustment;
          numerator' = Math_floor (js_mul targetPrice (Math_pow10 totalExponent))
      in \<lparr> numerator = numerator', denominator = denominator' \<rparr>)"

text \<open>What can be thrown inside \<^verbatim>\<open>executeOrder\<close>.\<close>

datatype exec_error = WalletNotInitialized | RangeError | NetworkError | PemError

text \<open>
  The conversion at the head of the executor's \<^verbatim>\<open>executeOrder\<close>. A decimals argument is
  \<open>None\<close> when \<^verbatim>\<open>getTokenDecimals\<close> returned something that is not a number: the subtraction
  then gives NaN, \<^verbatim>\<open>PRECISION\<close> is NaN, and \<^verbatim>\<open>BigInt(PRECISION)\<close> throws a RangeError. The
  denominator is \<^verbatim>\<open>BigInt(10) ** BigInt(PRECISION)\<close>, and \<^verbatim>\<open>**\<close> on BigInts throws a
  RangeError for a negative exponent. The numerator is
  \<^verbatim>\<open>BigInt(Math.floor(currentPrice * Math.pow(10, PRECISION + decimalAdjustment)))\<close>, and
  \<^verbatim>\<open>BigInt\<close> throws a RangeError on NaN and on the infinities. The result is a pair of
  BigInts.
\<close>

definition executeOrder_fraction :: "number \<Rightarrow> int option \<Rightarrow> int option \<Rightarrow> exec_error + (int \<times> int)" where
  "executeOrder_fraction currentPrice fromTokenDecimals toTokenDecimals =
     (case fromTokenDecimals of
        None \<Rightarrow> Inl RangeError
      | Some fromDecimals \<Rightarrow>
          (case toTokenDecimals of
             None \<Rightarrow> Inl RangeError
           | Some toDecimals \<Rightarrow>
               let decimalAdjustment = toDecimals - fromDecimals;
                   MAX_SAFE_EXPONENT = 15;
                   PRECISION = min 6 (MAX_SAFE_EXPONENT - \<bar>decimalAdjustment\<bar>)
               in if PRECISION < 0 then Inl RangeError
                  else
                    let denominator' = 10 ^ nat PRECISION;
                        priceScaled = js_mul currentPrice (Math_pow10 (PRECISION + decimalAdjustment))
                    in (case BigInt_of_number (Math_floor priceScaled) of
                          None \<Rightarrow> Inl RangeError
                        | Some numerator' \<Rightarrow> Inr (numerator', denominator'))))"

subsection \<open>Spot price (getTokenPairPrice)\<close>

text \<open>
  One pair of the exchange's answer. The reserves are the results of \<^verbatim>\<open>parseFloat\<close>
  (any double, NaN included); the decimals are integers.
\<close>

record pair_info =
  firstToken_identifier :: string
  firstToken_decimals :: int
  secondToken_identifier :: string
  secondToken_decimals :: int
  reserves0 :: number
  reserves1 :: number

text \<open>
  The argument is the list of pairs of the GraphQL answer, \<open>None\<close> when the request
  failed or the answer has no \<^verbatim>\<open>data.pairs\<close>. The price that is returned can be any
  double: zero after an underflow, an infinity or NaN after a division by such a zero.
\<close>

definition getTokenPairPrice :: "pair_info list option \<Rightarrow> string \<Rightarrow> string \<Rightarrow> number option" where
  "getTokenPairPrice response fromToken toToken =
     (case response of
        None \<Rightarrow> None
      | Some pairs \<Rightarrow>
          if pairs = [] then None
          else
            (case find (\<lambda>p. (firstToken_identifier p = fromToken \<and> secondToken_identifier p = toToken)
                           \<or> (firstToken_identifier p = toToken \<and> secondToken_identifier p = fromToken))
                       pairs of
               None \<Rightarrow> None
             | Some pair \<Rightarrow>
                 let reserve0 = reserves0 pair;
                     reserve1 = reserves1 pair
                 in if isFalsy reserve0 \<or> isFalsy reserve1 then None
                    else
                      let adjustedReserve0 = js_div reserve0 (Math_pow10 (firstToken_decimals pair));
                          adjustedReserve1 = js_div reserve1 (Math_pow10 (secondToken_decimals pair));
                          price = (if firstToken_identifier pair = fromToken
                                   then js_div adjustedReserve1 adjustedReserve0
                                   else js_div adjustedReserve0 adjustedReserve1)
                      in Some price))"

subsection \<open>The executor\<close>

text \<open>
  The fields of \<^verbatim>\<open>LimitOrderExecutor\<close>. The signer and the executor address are set
  together by \<^verbatim>\<open>initializeExecutorWallet\<close>; \<open>executorAddress\<close> stands for both.
  \<^verbatim>\<open>attemptedOrders\<close> is a JavaScript \<^verbatim>\<open>Map\<close>: an association list in insertion
  order, from order id to the millisecond timestamp of the last attempt.
\<close>

record executor =
  executorAddress :: "string option"
  isRunning :: bool
  checkInterval :: nat
  attemptedOrders :: "(nat \<times> int) list"
  cooldownPeriod :: int

definition new_LimitOrderExecutor :: executor where
  "new_LimitOrderExecutor =
     \<lparr> executorAddress = None,
       isRunning = False,
       checkInterval = 30000,
       attemptedOrders = [],
       cooldownPeriod = 300000 \<rparr>"

definition TOKEN_DECIMALS :: "string \<rightharpoonup> int" where
  "TOKEN_DECIMALS = [''USDC-c76f1f'' \<mapsto> 6, ''WEGLD-bd4d79'' \<mapsto> 18]"

text \<open>
  \<^verbatim>\<open>TOKEN_DECIMALS\<close> is an object literal, so a lookup that finds no own property goes on
  to \<^verbatim>\<open>Object.prototype\<close>, whose members are functions (and, for \<^verbatim>\<open>__proto__\<close>, an
  object).
\<close>

definition OBJECT_PROTOTYPE_MEMBERS :: "string list" where
  "OBJECT_PROTOTYPE_MEMBERS =
     [''constructor'', ''hasOwnProperty'', ''isPrototypeOf'', ''propertyIsEnumerable'',
      ''toLocaleString'', ''toString'', ''valueOf'', ''__proto__'',
      ''__defineGetter__'', ''__defineSetter__'', ''__lookupGetter__'', ''__lookupSetter__'']"

text \<open>
  \<^verbatim>\<open>this.TOKEN_DECIMALS[tokenIdentifier] || 18\<close>: a zero entry and an unknown identifier
  give 18; an identifier that names a member of \<^verbatim>\<open>Object.prototype\<close> gives that member,
  which is truthy and not a number (\<open>None\<close>).
\<close>

definition getTokenDecimals :: "string \<Rightarrow> int option" where
  "getTokenDecimals tokenIdentifier =
     (case TOKEN_DECIMALS tokenIdentifier of
        Some d \<Rightarrow> if d = 0 then Some 18 else Some d
      | None \<Rightarrow> if tokenIdentifier \<in> set OBJECT_PROTOTYPE_MEMBERS then None else Some 18)"

text \<open>What \<^verbatim>\<open>provider.getTransaction\<close> gives at one poll.\<close>

datatype tx_poll = StatusSuccessful | StatusFailed | StatusOther | PollThrows

text \<open>
  The answers of the outside world while one order is processed: the chain API's answer
  to \<^verbatim>\<open>getOrder\<close>, the exchange's pairs, the account nonce (\<open>None\<close>: the call throws),
  whether \<^verbatim>\<open>sendTransaction\<close> returns a hash, and the status seen at each poll.
\<close>

record order_env =
  orderResponse :: "query_response option"
  pairsResponse :: "pair_info list option"
  accountNonce :: "nat option"
  sendOk :: bool
  txPolls :: "nat \<Rightarrow> tx_poll"

text \<open>
  The trace of an execution: the network calls in the order they are made, and the three
  console lines that end \<^verbatim>\<open>waitForTransaction\<close>. \<open>SendTransaction\<close> carries the order
  id, numerator and denominator of the \<^verbatim>\<open>executeLimitOrder\<close> call data.
\<close>

datatype event =
    QueryOrder nat
  | QueryPairs
  | GetAccount
  | SendTransaction nat int int
  | GetTransaction
  | LogTxSuccessful
  | LogTxFailed
  | LogTxPending

text \<open>
  \<^verbatim>\<open>waitForTransaction\<close>: at most \<^verbatim>\<open>maxAttempts = 20\<close> polls. It returns normally in
  all three cases (successful, failed, still pending); it never throws.
\<close>

fun waitLoop :: "(nat \<Rightarrow> tx_poll) \<Rightarrow> nat \<Rightarrow> nat \<Rightarrow> event list" where
  "waitLoop polls i 0 = [LogTxPending]"
| "waitLoop polls i (Suc remaining) =
     GetTransaction #
       (case polls i of
          StatusSuccessful \<Rightarrow> [LogTxSuccessful]
        | StatusFailed \<Rightarrow> [LogTxFailed]
        | StatusOther \<Rightarrow> waitLoop polls (Suc i) remaining
        | PollThrows \<Rightarrow> waitLoop polls (Suc i) remaining)"

definition waitForTransaction :: "(nat \<Rightarrow> tx_poll) \<Rightarrow> event list" where
  "waitForTransaction polls = waitLoop polls 0 20"

text \<open>
  \<^verbatim>\<open>executeOrder\<close>: the result is \<open>Inr ()\<close> when the function returns and \<open>Inl e\<close> when it
  throws; the second component is the trace.
\<close>

definition executeOrder ::
  "order_env \<Rightarrow> executor \<Rightarrow> nat \<Rightarrow> number \<Rightarrow> int option \<Rightarrow> int option
     \<Rightarrow> (exec_error + unit) \<times> event list" where
  "executeOrder env ex orderId currentPrice fromTokenDecimals toTokenDecimals =
     (if executorAddress ex = None then (Inl WalletNotInitialized, [])
      else
        (case executeOrder_fraction currentPrice fromTokenDecimals toTokenDecimals of
           Inl e \<Rightarrow> (Inl e, [])
         | Inr (numerator', denominator') \<Rightarrow>
             (case accountNonce env of
                None \<Rightarrow> (Inl NetworkError, [GetAccount])
              | Some nonce \<Rightarrow>
                  if \<not> sendOk env
                  then (Inl NetworkError, [GetAccount, SendTransaction orderId numerator' denominator'])
                  else (Inr (), [GetAccount, SendTransaction orderId numerator' denominator']
                                 @ waitForTransaction (txPolls env)))))"

text \<open>
  \<^verbatim>\<open>lastAttempt && (now - lastAttempt) < this.cooldownPeriod\<close>: a missing entry and the
  timestamp 0 are both falsy.
\<close>

definition onCooldown :: "executor \<Rightarrow> int \<Rightarrow> nat \<Rightarrow> bool" where
  "onCooldown ex now orderId =
     (case map_of (attemptedOrders ex) orderId of
        None \<Rightarrow> False
      | Some lastAttempt \<Rightarrow> lastAttempt \<noteq> 0 \<and> now - lastAttempt < cooldownPeriod ex)"

text \<open>
  \<^verbatim>\<open>targetPrice = parseFloat(numerator) / parseFloat(denominator)\<close>, the two strings being
  the decimal strings of the decoded big integers: both are rounded to doubles, and so is
  their quotient.
\<close>

definition targetPriceOf :: "nat \<Rightarrow> nat \<Rightarrow> number" where
  "targetPriceOf targetNumerator targetDenominator =
     js_div (parseFloat_decimal targetNumerator) (parseFloat_decimal targetDenominator)"

text \<open>\<^verbatim>\<open>pairPrice <= targetPrice\<close>, a comparison of doubles.\<close>

definition priceConditionMet :: "number \<Rightarrow> nat \<Rightarrow> nat \<Rightarrow> bool" where
  "priceConditionMet pairPrice targetNumerator targetDenominator =
     js_le pairPrice (targetPriceOf targetNumerator targetDenominator)"

text \<open>
  \<^verbatim>\<open>checkAndExecuteOrder\<close>; \<open>now\<close> is the value of \<^verbatim>\<open>Date.now()\<close>, an integer number of
  milliseconds within the range of a Date, for which \<^verbatim>\<open>Math.floor(now / 1000)\<close> is the
  integer quotient (the double quotient is less than \<open>2^43\<close> and cannot round up to the next
  integer). \<^verbatim>\<open>!currentPrice\<close> holds for null, NaN and the zeros. The result is the executor
  after the call and the trace.
\<close>

definition checkAndExecuteOrder :: "order_env \<Rightarrow> executor \<Rightarrow> int \<Rightarrow> nat \<Rightarrow> executor \<times> event list" where
  "checkAndExecuteOrder env ex now orderId =
     (if onCooldown ex now orderId then (ex, [])
      else
        (case getLimitOrder (orderResponse env) orderId of
           None \<Rightarrow>
             (ex\<lparr>attemptedOrders := AList.delete orderId (attemptedOrders ex)\<rparr>, [QueryOrder orderId])
         | Some order \<Rightarrow>
             let nowSeconds = now div 1000 in
             if nowSeconds > int (expires_at order)
             then (ex\<lparr>attemptedOrders := AList.delete orderId (attemptedOrders ex)\<rparr>,
                   [QueryOrder orderId])
             else
               (case getTokenPairPrice (pairsResponse env) (from_token order) (to_token order) of
                  None \<Rightarrow> (ex, [QueryOrder orderId, QueryPairs])
                | Some currentPrice \<Rightarrow>
                    if isFalsy currentPrice then (ex, [QueryOrder orderId, QueryPairs])
                    else
                      let pairPrice = currentPrice in
                      if priceConditionMet pairPrice (target_price_numerator order)
                           (target_price_denominator order)
                      then
                        let ex1 = ex\<lparr>attemptedOrders := AList.update orderId now (attemptedOrders ex)\<rparr>;
                            fromDecimals = getTokenDecimals (from_token order);
                            toDecimals = getTokenDecimals (to_token order)
                        in (case executeOrder env ex1 orderId pairPrice fromDecimals toDecimals of
                              (Inr u, evs) \<Rightarrow>
                                (ex1\<lparr>attemptedOrders := AList.delete orderId (attemptedOrders ex1)\<rparr>,
                                 [QueryOrder orderId, QueryPairs] @ evs)
                            | (Inl e, evs) \<Rightarrow> (ex1, [QueryOrder orderId, QueryPairs] @ evs))
                      else (ex, [QueryOrder orderId, QueryPairs]))))"

text \<open>
  The sweep \<^verbatim>\<open>checkAndExecuteOrders\<close>. Its argument lists, for each order id returned by
  \<^verbatim>\<open>getPendingOrders\<close> (the empty list when that call fails), the clock and the answers of
  the outside world at the time the order is processed.
\<close>

fun processOrders :: "(nat \<times> int \<times> order_env) list \<Rightarrow> executor \<Rightarrow> executor \<times> event list" where
  "processOrders [] ex = (ex, [])"
| "processOrders ((orderId, now, env) # rest) ex =
     (let (ex1, evs1) = checkAndExecuteOrder env ex now orderId;
          (ex2, evs2) = processOrders rest ex1
      in (ex2, evs1 @ evs2))"

definition checkAndExecuteOrders :: "(nat \<times> int \<times> order_env) list \<Rightarrow> executor \<Rightarrow> executor \<times> event list" where
  "checkAndExecuteOrders pendingOrderIds ex =
     (if \<not> isRunning ex then (ex, [])
      else if pendingOrderIds = [] then (ex, [])
      else processOrders pendingOrderIds ex)"

text \<open>
  \<^verbatim>\<open>start\<close>: throws without a wallet; otherwise runs one sweep and registers the sweep
  with \<^verbatim>\<open>setInterval\<close>. The third component of the result is the period, in milliseconds,
  given to \<^verbatim>\<open>setInterval\<close>.
\<close>

definition start :: "(nat \<times> int \<times> order_env) list \<Rightarrow> executor \<Rightarrow> exec_error + (executor \<times> event list \<times> nat)" where
  "start firstSweep ex =
     (if executorAddress ex = None then Inl WalletNotInitialized
      else
        let ex1 = ex\<lparr>isRunning := True\<rparr>;
            (ex2, evs) = checkAndExecuteOrders firstSweep ex1
        in Inr (ex2, evs, checkInterval ex2))"

subsection \<open>Configuration and entry point (config.ts, index.ts)\<close>

text \<open>
  \<^verbatim>\<open>parseInt(string)\<close> without a radix: leading white space, an optional sign, an optional
  \<^verbatim>\<open>0x\<close> prefix, then the longest run of digits; NaN when there is no digit, \<open>-0\<close> for a
  negative zero, otherwise the double nearest to the integer read (the engine may
  approximate an integer of more than 20 significant digits before it rounds; the exact
  integer is rounded here). White space is the ASCII part of the ECMAScript set.
\<close>

definition isStrWhiteSpaceChar :: "char \<Rightarrow> bool" where
  "isStrWhiteSpaceChar c \<longleftrightarrow> (of_char c :: nat) \<in> {9, 10, 11, 12, 13, 32}"

definition digitValue :: "char \<Rightarrow> nat option" where
  "digitValue c =
     (let n = (of_char c :: nat)
      in if 48 \<le> n \<and> n \<le> 57 then Some (n - 48)
         else if 97 \<le> n \<and> n \<le> 122 then Some (n - 87)
         else if 65 \<le> n \<and> n \<le> 90 then Some (n - 55)
         else None)"

fun radixDigits :: "nat \<Rightarrow> string \<Rightarrow> nat list" where
  "radixDigits R [] = []"
| "radixDigits R (c # cs) =
     (case digitValue c of
        None \<Rightarrow> []
      | Some d \<Rightarrow> if d < R then d # radixDigits R cs else [])"

definition parseInt :: "string \<Rightarrow> number" where
  "parseInt string =
     (let S = dropWhile isStrWhiteSpaceChar string;
          negative = (S \<noteq> [] \<and> hd S = CHR ''-'');
          S1 = (if S \<noteq> [] \<and> (hd S = CHR ''+'' \<or> hd S = CHR ''-'') then tl S else S);
          hex = (take 2 S1 = ''0x'' \<or> take 2 S1 = ''0X'');
          R = (if hex then 16 else 10);
          S2 = (if hex then drop 2 S1 else S1);
          Z = radixDigits R S2;
          mathInt = foldl (\<lambda>acc d. acc * R + d) 0 Z
      in if Z = [] then NaN
         else if mathInt = 0 then (if negative then NegZero else Finite 0)
         else if negative then toDouble (- real mathInt)
         else toDouble (real mathInt))"

text \<open>The three variables of \<^verbatim>\<open>process.env\<close> that config.ts reads for the executor.\<close>

record environment =
  ENABLE_LIMIT_ORDER_EXECUTOR :: "string option"
  LIMIT_ORDER_CHECK_INTERVAL :: "string option"
  EXECUTOR_WALLET_PEM_PATH :: "string option"

text \<open>\<^verbatim>\<open>process.env.X || d\<close>: an unset or empty variable gives the default.\<close>

definition orDefault :: "string option \<Rightarrow> string \<Rightarrow> string" where
  "orDefault v d = (case v of None \<Rightarrow> d | Some x \<Rightarrow> if x = [] then d else x)"

record limit_order_config =
  enabled :: bool
  checkIntervalSeconds :: number
  executorPemPath :: string

definition LIMIT_ORDER_CONFIG :: "environment \<Rightarrow> limit_order_config" where
  "LIMIT_ORDER_CONFIG env =
     \<lparr> enabled = (ENABLE_LIMIT_ORDER_EXECUTOR env = Some ''true''),
       checkIntervalSeconds = parseInt (orDefault (LIMIT_ORDER_CHECK_INTERVAL env) ''30''),
       executorPemPath = orDefault (EXECUTOR_WALLET_PEM_PATH env) ''./executor-wallet.pem'' \<rparr>"

definition CONTRACT_ADDRESS :: string where
  "CONTRACT_ADDRESS = ''erd1qqqqqqqqqqqqqpgqhcmms89zn6997pvpv9g7ckpcxz4mnjn088zqtvnz29''"

text \<open>
  \<^verbatim>\<open>initializeExecutorWallet\<close>: the first argument is the file system, giving for a path
  the address of the wallet stored there, or \<open>None\<close> when reading or parsing the PEM file
  fails.
\<close>

definition initializeExecutorWallet :: "(string \<Rightarrow> string option) \<Rightarrow> string \<Rightarrow> executor \<Rightarrow> exec_error + executor" where
  "initializeExecutorWallet files pemPath ex =
     (case files pemPath of
        None \<Rightarrow> Inl PemError
      | Some address \<Rightarrow> Inr (ex\<lparr>executorAddress := Some address\<rparr>))"

text \<open>
  The state of the backend process after the start-up code of index.ts has run:
  the configuration, the executor object and the period registered with
  \<^verbatim>\<open>setInterval\<close> (\<open>None\<close> when the executor was not started).
\<close>

record backend =
  backendConfig :: limit_order_config
  limitOrderExecutor :: executor
  sweepPeriod :: "nat option"

definition index_main :: "environment \<Rightarrow> (string \<Rightarrow> string option) \<Rightarrow> (nat \<times> int \<times> order_env) list \<Rightarrow> backend" where
  "index_main env files firstSweep =
     (let config = LIMIT_ORDER_CONFIG env;
          ex0 = new_LimitOrderExecutor
      in if enabled config
         then
           (case initializeExecutorWallet files (executorPemPath config) ex0 of
              Inl e \<Rightarrow> \<lparr> backendConfig = config, limitOrderExecutor = ex0, sweepPeriod = None \<rparr>
            | Inr ex1 \<Rightarrow>
                (case start firstSweep ex1 of
                   Inl e \<Rightarrow> \<lparr> backendConfig = config, limitOrderExecutor = ex1, sweepPeriod = None \<rparr>
                 | Inr (ex2, evs, period) \<Rightarrow>
                     \<lparr> backendConfig = config, limitOrderExecutor = ex2, sweepPeriod = Some period \<rparr>))
         else \<lparr> backendConfig = config, limitOrderExecutor = ex0, sweepPeriod = None \<rparr>)"

subsection \<open>Status API\<close>

datatype json = JString string | JNumber int | JBool bool | JNull | JObject "(string \<times> json) list"

definition getStatus :: "executor \<Rightarrow> json" where
  "getStatus ex =
     JObject
       [(''running'', JBool (isRunning ex)),
        (''executorAddress'', (case executorAddress ex of None \<Rightarrow> JNull | Some a \<Rightarrow> if a = [] then JNull else JString a)),
        (''checkInterval'', JNumber (int (checkInterval ex))),
        (''cooldownPeriod'', JNumber (cooldownPeriod ex)),
        (''attemptedOrdersCount'', JNumber (int (length (attemptedOrders ex)))),
        (''contractAddress'', JString CONTRACT_ADDRESS)]"

text \<open>
  The handler of \<^verbatim>\<open>GET /health\<close>: \<^verbatim>\<open>res.json(body)\<close> answers with status 200. The
  result is the status code and the body.
\<close>

definition health :: "backend \<Rightarrow> nat \<times> json" where
  "health b =
     (200,
      JObject
        [(''status'', JString ''ok''),
         (''service'', JString ''stellarnova-backend''),
         (''limitOrderExecutor'',
            JObject
              [(''enabled'', JBool (enabled (backendConfig b))),
               (''running'', getStatus (limitOrderExecutor b))])])"

text \<open>Reading a member of a JSON object, and a path of members.\<close>

fun json_member :: "string \<Rightarrow> json \<Rightarrow> json option" where
  "json_member k (JObject kvs) = map_of kvs k"
| "json_member k (JString v) = None"
| "json_member k (JNumber v) = None"
| "json_member k (JBool v) = None"
| "json_member k JNull = None"

fun json_path :: "string list \<Rightarrow> json \<Rightarrow> json option" where
  "json_path [] j = Some j"
| "json_path (k # ks) j = (case json_member k j of None \<Rightarrow> None | Some j' \<Rightarrow> json_path ks j')"

subsection \<open>Sample data\<close>

text \<open>
  An order of 10 USDC for WEGLD (scenario S1 of the specification), its serialisation, and
  an environment in which the chain returns it and the exchange quotes 0.15.
\<close>

definition sample_owner :: buffer where
  "sample_owner =
     [151, 122, 52, 207, 166, 17, 5, 127, 232, 240, 113, 96, 118, 252, 213, 129,
      177, 169, 36, 144, 33, 158, 223, 66, 7, 37, 219, 45, 132, 193, 175, 188]"

definition sample_order :: Order where
  "sample_order =
     \<lparr> ord_order_id = 7,
       ord_owner = sample_owner,
       ord_from_token = ''USDC-c76f1f'',
       ord_from_amount = 10000000,
       ord_to_token = ''WEGLD-bd4d79'',
       ord_target_num = 155000000000000,
       ord_target_denom = 1000,
       ord_slippage_bp = 500,
       ord_created_at = 1700000000,
       ord_expires_at = 1700003600,
       ord_status = Pending \<rparr>"

definition sample_bytes :: buffer where
  "sample_bytes =
     [0, 0, 0, 0, 0, 0, 0, 7,
      151, 122, 52, 207, 166, 17, 5, 127, 232, 240, 113, 96, 118, 252, 213, 129,
      177, 169, 36, 144, 33, 158, 223, 66, 7, 37, 219, 45, 132, 193, 175, 188,
      0, 0, 0, 11, 85, 83, 68, 67, 45, 99, 55, 54, 102, 49, 102,
      0, 0, 0, 3, 152, 150, 128,
      0, 0, 0, 12, 87, 69, 71, 76, 68, 45, 98, 100, 52, 100, 55, 57,
      0, 0, 0, 6, 140, 248, 191, 240, 176, 0,
      0, 0, 0, 2, 3, 232,
      0, 0, 0, 0, 0, 0, 1, 244,
      0, 0, 0, 0, 101, 83, 255, 16,
      0,
      0, 0, 0, 0, 101, 83, 241, 0]"

definition sample_view :: LimitOrder where
  "sample_view =
     \<lparr> order_id = 7,
       user = ''977a34cfa611057fe8f0716076fcd581b1a92490219edf420725db2d84c1afbc'',
       from_token = ''USDC-c76f1f'',
       from_amount = 10000000,
       to_token = ''WEGLD-bd4d79'',
       target_price_numerator = 155000000000000,
       target_price_denominator = 1000,
       slippage_bp = 500,
       created_at = 1700000000,
       expires_at = 1700003600,
       status = 0 \<rparr>"

definition sample_pair :: pair_info where
  "sample_pair =
     \<lparr> firstToken_identifier = ''WEGLD-bd4d79'',
       firstToken_decimals = 18,
       secondToken_identifier = ''USDC-c76f1f'',
       secondToken_decimals = 6,
       reserves0 = Finite 150000000000000000000,
       reserves1 = Finite 1000000000 \<rparr>"

definition sample_env :: "tx_poll \<Rightarrow> order_env" where
  "sample_env poll =
     \<lparr> orderResponse = Some \<lparr> returnData = Some [sample_bytes], statusCode = 200 \<rparr>,
       pairsResponse = Some [sample_pair],
       accountNonce = Some 42,
       sendOk = True,
       txPolls = (\<lambda>i. poll) \<rparr>"

definition ready_executor :: executor where
  "ready_executor = new_LimitOrderExecutor \<lparr> executorAddress := Some ''erd1executor'', isRunning := True \<rparr>"

text \<open>
  The sample order with the target 1/10 and a pool that quotes one tenth; the sample order
  with a token identifier that names a member of \<^verbatim>\<open>Object.prototype\<close>, and its pool; the
  sample order with an expiry one second beyond the range of a JavaScript Date.
\<close>

definition tenth_order :: Order where
  "tenth_order = sample_order \<lparr> ord_target_num := 1, ord_target_denom := 10 \<rparr>"

definition tenth_env :: order_env where
  "tenth_env =
     \<lparr> orderResponse = Some \<lparr> returnData = Some [encode_order tenth_order], statusCode = 200 \<rparr>,
       pairsResponse =
         Some [\<lparr> firstToken_identifier = ''WEGLD-bd4d79'',
                  firstToken_decimals = 18,
                  secondToken_identifier = ''USDC-c76f1f'',
                  secondToken_decimals = 6,
                  reserves0 = Finite 1000000000000000000,
                  reserves1 = Finite 10000000 \<rparr>],
       accountNonce = Some 42,
       sendOk = True,
       txPolls = (\<lambda>i. StatusSuccessful) \<rparr>"

definition member_token_order :: Order where
  "member_token_order = sample_order \<lparr> ord_to_token := ''toString'' \<rparr>"

definition member_token_env :: order_env where
  "member_token_env =
     \<lparr> orderResponse =
         Some \<lparr> returnData = Some [encode_order member_token_order], statusCode = 200 \<rparr>,
       pairsResponse =
         Some [\<lparr> firstToken_identifier = ''toString'',
                  firstToken_decimals = 18,
                  secondToken_identifier = ''USDC-c76f1f'',
                  secondToken_decimals = 6,
                  reserves0 = Finite 150000000000000000000,
                  reserves1 = Finite 1000000000 \<rparr>],
       accountNonce = Some 42,
       sendOk = True,
       txPolls = (\<lambda>i. StatusSuccessful) \<rparr>"


text \<open>
  A process environment that enables the executor and asks for a sweep every 60 seconds,
  a file system holding the default wallet file, and the backend they start.
\<close>

definition sample_environment :: environment where
  "sample_environment =
     \<lparr> ENABLE_LIMIT_ORDER_EXECUTOR = Some ''true'',
       LIMIT_ORDER_CHECK_INTERVAL = Some ''60'',
       EXECUTOR_WALLET_PEM_PATH = None \<rparr>"

definition sample_files :: "string \<Rightarrow> string option" where
  "sample_files path = (if path = ''./executor-wallet.pem'' then Some ''erd1executor'' else None)"

definition sample_backend :: backend where
  "sample_backend = index_main sample_environment sample_files []"

section \<open>Properties\<close>

subsection \<open>Order codec\<close>

lemma be_nat_append: "be_nat (xs @ [b]) = be_nat xs * 256 + unat b"
  by (simp add: be_nat_def)

lemma be_nat_Nil: "be_nat [] = 0"
  by (simp add: be_nat_def)

lemma unat_byte_of_nat: "unat (of_nat (n mod 256) :: byte) = n mod 256"
  by (simp add: unat_of_nat)

lemma length_nat_to_be: "length (nat_to_be w n) = w"
  by (induction w arbitrary: n) simp_all

lemma be_nat_nat_to_be: "be_nat (nat_to_be w n) = n mod 256 ^ w"
proof (induction w arbitrary: n)
  case 0
  show ?case by (simp add: be_nat_Nil)
next
  case (Suc w)
  have "be_nat (nat_to_be (Suc w) n) = (n div 256) mod 256 ^ w * 256 + n mod 256"
    by (simp add: be_nat_append Suc unat_byte_of_nat)
  also have "\<dots> = n mod 256 ^ Suc w"
    by (simp add: mod_mult2_eq)
  finally show ?case .
qed

lemma be_nat_magnitude_bytes: "be_nat (magnitude_bytes n) = n"
proof (induction n rule: magnitude_bytes.induct)
  case (1 n)
  show ?case
  proof (cases "n = 0")
    case True
    then show ?thesis by (simp add: magnitude_bytes.simps be_nat_Nil)
  next
    case False
    then have "be_nat (magnitude_bytes n) = be_nat (magnitude_bytes (n div 256)) * 256 + n mod 256"
      by (subst magnitude_bytes.simps) (simp add: be_nat_append unat_byte_of_nat)
    with 1 False show ?thesis by simp
  qed
qed

lemma magnitude_bytes_Nil_iff: "magnitude_bytes n = [] \<longleftrightarrow> n = 0"
  by (subst magnitude_bytes.simps) simp

lemma toString_utf8_utf8_bytes: "toString_utf8 (utf8_bytes s) = s"
  by (simp add: toString_utf8_def utf8_bytes_def unat_of_nat map_idI)

lemma length_utf8_bytes: "length (utf8_bytes s) = length s"
  by (simp add: utf8_bytes_def)

lemma readUIntBE_at:
  "length pre = off \<Longrightarrow> n < 256 ^ w \<Longrightarrow>
   readUIntBE w (pre @ nat_to_be w n @ rest) off = Some n"
  by (simp add: readUIntBE_def length_nat_to_be be_nat_nat_to_be)

lemma buffer_slice_at:
  "length pre = a \<Longrightarrow> b = a + length bs \<Longrightarrow> buffer_slice (pre @ bs @ rest) a b = bs"
  by (simp add: buffer_slice_def)

lemma readU64_at:
  "length pre = off \<Longrightarrow> n < 2 ^ 64 \<Longrightarrow>
   readU64 (pre @ nat_to_be 8 n @ rest) off = Some (n, off + 8)"
  by (simp add: readU64_def readBigUInt64BE_def readUIntBE_at)

lemma readLengthPrefixed_at:
  assumes "length pre = off" "length bs < 2 ^ 32"
  shows "readLengthPrefixed (pre @ length_prefixed bs @ rest) off = Some (bs, off + 4 + length bs)"
proof -
  have r: "readUInt32BE (pre @ nat_to_be 4 (length bs) @ (bs @ rest)) off = Some (length bs)"
    unfolding readUInt32BE_def using assms by (intro readUIntBE_at) simp_all
  have s: "buffer_slice ((pre @ nat_to_be 4 (length bs)) @ bs @ rest) (off + 4) (off + 4 + length bs) = bs"
    using assms by (intro buffer_slice_at) (simp_all add: length_nat_to_be)
  show ?thesis
    using r s by (simp add: readLengthPrefixed_def length_prefixed_def)
qed

lemma readBigUint_at:
  assumes "length pre = off" "length (magnitude_bytes n) < 2 ^ 32"
  shows "readBigUint (pre @ length_prefixed (magnitude_bytes n) @ rest) off
         = Some (n, off + 4 + length (magnitude_bytes n))"
proof -
  let ?bs = "magnitude_bytes n"
  have r: "readUInt32BE (pre @ nat_to_be 4 (length ?bs) @ (?bs @ rest)) off = Some (length ?bs)"
    unfolding readUInt32BE_def using assms by (intro readUIntBE_at) simp_all
  have s: "buffer_slice ((pre @ nat_to_be 4 (length ?bs)) @ ?bs @ rest) (off + 4) (off + 4 + length ?bs) = ?bs"
    using assms by (intro buffer_slice_at) (simp_all add: length_nat_to_be)
  show ?thesis
  proof (cases "n = 0")
    case True
    then have "?bs = []" by (simp add: magnitude_bytes_Nil_iff)
    with r True show ?thesis by (simp add: readBigUint_def length_prefixed_def)
  next
    case False
    then have ne: "?bs \<noteq> []" by (simp add: magnitude_bytes_Nil_iff)
    then have "length ?bs \<noteq> 0" by simp
    with r s ne show ?thesis
      by (simp add: readBigUint_def length_prefixed_def be_nat_magnitude_bytes Let_def)
  qed
qed

lemma Number_of_BigInt_small: "n < 2 ^ 53 \<Longrightarrow> Number_of_BigInt n = n"
  by (simp add: Number_of_BigInt_def)

lemma parseLimitOrder_encode_order:
  assumes wf: "well_formed_order ord"
    and exp53: "unat (ord_expires_at ord) < 9007199254740992"
  shows "parseLimitOrder (unat (ord_order_id ord)) (encode_order ord) =
           (if unat (ord_expires_at ord) \<le> 8640000000000 then Some (order_view ord) else None)"
proof -
  let ?e1 = "nat_to_be 8 (unat (ord_order_id ord))"
  let ?e2 = "ord_owner ord"
  let ?e3 = "length_prefixed (utf8_bytes (ord_from_token ord))"
  let ?e4 = "length_prefixed (magnitude_bytes (ord_from_amount ord))"
  let ?e5 = "length_prefixed (utf8_bytes (ord_to_token ord))"
  let ?e6 = "length_prefixed (magnitude_bytes (ord_target_num ord))"
  let ?e7 = "length_prefixed (magnitude_bytes (ord_target_denom ord))"
  let ?e8 = "nat_to_be 8 (unat (ord_slippage_bp ord))"
  let ?e9 = "nat_to_be 8 (unat (ord_expires_at ord))"
  let ?e10 = "nat_to_be 1 (status_code (ord_status ord))"
  let ?e11 = "nat_to_be 8 (unat (ord_created_at ord))"
  define buf where "buf = encode_order ord"
  define o3 where "o3 = 40 + 4 + length (utf8_bytes (ord_from_token ord))"
  define o4 where "o4 = o3 + 4 + length (magnitude_bytes (ord_from_amount ord))"
  define o5 where "o5 = o4 + 4 + length (utf8_bytes (ord_to_token ord))"
  define o6 where "o6 = o5 + 4 + length (magnitude_bytes (ord_target_num ord))"
  define o7 where "o7 = o6 + 4 + length (magnitude_bytes (ord_target_denom ord))"
  have len_lp: "\<And>bs. length (length_prefixed bs) = 4 + length bs"
    by (simp add: length_prefixed_def length_nat_to_be)
  have owner32: "length ?e2 = 32"
    and lens: "length (utf8_bytes (ord_from_token ord)) < 4294967296"
      "length (utf8_bytes (ord_to_token ord)) < 4294967296"
      "length (magnitude_bytes (ord_from_amount ord)) < 4294967296"
      "length (magnitude_bytes (ord_target_num ord)) < 4294967296"
      "length (magnitude_bytes (ord_target_denom ord)) < 4294967296"
    using wf by (simp_all add: well_formed_order_def length_utf8_bytes)
  have u64: "\<And>w :: 64 word. unat w < 18446744073709551616"
  proof -
    fix w :: "64 word"
    have "unat w < 2 ^ LENGTH(64)" by (rule unsigned_less)
    then show "unat w < 18446744073709551616" by simp
  qed
  have "unat (ord_created_at ord) < unat (ord_expires_at ord)"
    using wf by (simp add: well_formed_order_def word_less_nat_alt)
  with exp53 have cre53: "unat (ord_created_at ord) < 9007199254740992" by simp
  have slip53: "unat (ord_slippage_bp ord) < 9007199254740992"
    using wf by (simp add: well_formed_order_def)
  have r1: "readU64 buf 0 = Some (unat (ord_order_id ord), 8)"
  proof -
    have "readU64 ([] @ ?e1 @ (?e2 @ ?e3 @ ?e4 @ ?e5 @ ?e6 @ ?e7 @ ?e8 @ ?e9 @ ?e10 @ ?e11)) 0
          = Some (unat (ord_order_id ord), 0 + 8)"
      by (rule readU64_at) (simp_all add: u64)
    then show ?thesis by (simp add: buf_def encode_order_def)
  qed
  have r2: "buffer_slice buf 8 40 = ord_owner ord"
  proof -
    have "buffer_slice (?e1 @ ?e2 @ (?e3 @ ?e4 @ ?e5 @ ?e6 @ ?e7 @ ?e8 @ ?e9 @ ?e10 @ ?e11)) 8 (8 + 32) = ?e2"
      by (rule buffer_slice_at) (simp_all add: length_nat_to_be owner32)
    then show ?thesis by (simp add: buf_def encode_order_def)
  qed
  have r3: "readLengthPrefixed buf 40 = Some (utf8_bytes (ord_from_token ord), o3)"
  proof -
    have "readLengthPrefixed ((?e1 @ ?e2) @ ?e3 @ (?e4 @ ?e5 @ ?e6 @ ?e7 @ ?e8 @ ?e9 @ ?e10 @ ?e11)) 40
          = Some (utf8_bytes (ord_from_token ord), 40 + 4 + length (utf8_bytes (ord_from_token ord)))"
      by (rule readLengthPrefixed_at) (simp_all add: length_nat_to_be owner32 lens)
    then show ?thesis by (simp add: buf_def encode_order_def o3_def)
  qed
  have r4: "readBigUint buf o3 = Some (ord_from_amount ord, o4)"
  proof -
    have "readBigUint ((?e1 @ ?e2 @ ?e3) @ ?e4 @ (?e5 @ ?e6 @ ?e7 @ ?e8 @ ?e9 @ ?e10 @ ?e11)) o3
          = Some (ord_from_amount ord, o3 + 4 + length (magnitude_bytes (ord_from_amount ord)))"
      by (rule readBigUint_at) (simp_all add: length_nat_to_be owner32 lens len_lp o3_def)
    then show ?thesis by (simp add: buf_def encode_order_def o4_def)
  qed
  have r5: "readLengthPrefixed buf o4 = Some (utf8_bytes (ord_to_token ord), o5)"
  proof -
    have "readLengthPrefixed ((?e1 @ ?e2 @ ?e3 @ ?e4) @ ?e5 @ (?e6 @ ?e7 @ ?e8 @ ?e9 @ ?e10 @ ?e11)) o4
          = Some (utf8_bytes (ord_to_token ord), o4 + 4 + length (utf8_bytes (ord_to_token ord)))"
      by (rule readLengthPrefixed_at) (simp_all add: length_nat_to_be owner32 lens len_lp o3_def o4_def)
    then show ?thesis by (simp add: buf_def encode_order_def o5_def)
  qed
  have r6: "readBigUint buf o5 = Some (ord_target_num ord, o6)"
  proof -
    have "readBigUint ((?e1 @ ?e2 @ ?e3 @ ?e4 @ ?e5) @ ?e6 @ (?e7 @ ?e8 @ ?e9 @ ?e10 @ ?e11)) o5
          = Some (ord_target_num ord, o5 + 4 + length (magnitude_bytes (ord_target_num ord)))"
      by (rule readBigUint_at)
        (simp_all add: length_nat_to_be owner32 lens len_lp o3_def o4_def o5_def)
    then show ?thesis by (simp add: buf_def encode_order_def o6_def)
  qed
  have r7: "readBigUint buf o6 = Some (ord_target_denom ord, o7)"
  proof -
    have "readBigUint ((?e1 @ ?e2 @ ?e3 @ ?e4 @ ?e5 @ ?e6) @ ?e7 @ (?e8 @ ?e9 @ ?e10 @ ?e11)) o6
          = Some (ord_target_denom ord, o6 + 4 + length (magnitude_bytes (ord_target_denom ord)))"
      by (rule readBigUint_at)
        (simp_all add: length_nat_to_be owner32 lens len_lp o3_def o4_def o5_def o6_def)
    then show ?thesis by (simp add: buf_def encode_order_def o7_def)
  qed
  have len7: "length (?e1 @ ?e2 @ ?e3 @ ?e4 @ ?e5 @ ?e6 @ ?e7) = o7"
    by (simp add: length_nat_to_be owner32 len_lp o3_def o4_def o5_def o6_def o7_def)
  have r8: "readU64 buf o7 = Some (unat (ord_slippage_bp ord), o7 + 8)"
  proof -
    have "readU64 ((?e1 @ ?e2 @ ?e3 @ ?e4 @ ?e5 @ ?e6 @ ?e7) @ ?e8 @ (?e9 @ ?e10 @ ?e11)) o7
          = Some (unat (ord_slippage_bp ord), o7 + 8)"
      using len7 by (rule readU64_at) (simp add: u64)
    then show ?thesis by (simp add: buf_def encode_order_def)
  qed
  have r9: "readU64 buf (o7 + 8) = Some (unat (ord_expires_at ord), o7 + 8 + 8)"
  proof -
    have "readU64 ((?e1 @ ?e2 @ ?e3 @ ?e4 @ ?e5 @ ?e6 @ ?e7 @ ?e8) @ ?e9 @ (?e10 @ ?e11)) (o7 + 8)
          = Some (unat (ord_expires_at ord), o7 + 8 + 8)"
      by (rule readU64_at) (use len7 in \<open>simp_all add: u64 length_nat_to_be\<close>)
    then show ?thesis by (simp add: buf_def encode_order_def)
  qed
  have st256: "status_code (ord_status ord) < 256 ^ 1"
    by (cases "ord_status ord") simp_all
  have r10: "readUInt8 buf (16 + o7) = Some (status_code (ord_status ord))"
  proof -
    have "readUIntBE 1 ((?e1 @ ?e2 @ ?e3 @ ?e4 @ ?e5 @ ?e6 @ ?e7 @ ?e8 @ ?e9) @ ?e10 @ ?e11) (o7 + 8 + 8)
          = Some (status_code (ord_status ord))"
      by (rule readUIntBE_at) (use len7 st256 in \<open>simp_all add: length_nat_to_be\<close>)
    then show ?thesis by (simp add: buf_def encode_order_def readUInt8_def)
  qed
  have r11: "readU64 buf (17 + o7) = Some (unat (ord_created_at ord), o7 + 8 + 8 + 1 + 8)"
  proof -
    have "readU64 ((?e1 @ ?e2 @ ?e3 @ ?e4 @ ?e5 @ ?e6 @ ?e7 @ ?e8 @ ?e9 @ ?e10) @ ?e11 @ []) (o7 + 8 + 8 + 1)
          = Some (unat (ord_created_at ord), o7 + 8 + 8 + 1 + 8)"
      by (rule readU64_at) (use len7 in \<open>simp_all add: u64 length_nat_to_be\<close>)
    then show ?thesis by (simp add: buf_def encode_order_def)
  qed
  have "parseLimitOrder (unat (ord_order_id ord)) buf =
          (if unat (ord_expires_at ord) \<le> 8640000000000 then Some (order_view ord) else None)"
    unfolding parseLimitOrder_def
    by (simp add: r1 r2 r3 r4 r5 r6 r7 r8 r9 r10 r11 order_view_def toString_utf8_utf8_bytes
        Number_of_BigInt_small exp53 cre53 slip53 new_Date_def toISOString_def)
  then show ?thesis by (simp add: buf_def)
qed

subsection \<open>The sample order\<close>

lemma nat_to_be_numeral:
  "nat_to_be (numeral k) n = nat_to_be (pred_numeral k) (n div 256) @ [of_nat (n mod 256)]"
  by (simp add: numeral_eq_Suc [of k])

lemma well_formed_sample_order: "well_formed_order sample_order"
  by (simp add: well_formed_order_def sample_order_def sample_owner_def magnitude_bytes.simps)

lemma encode_sample_order: "encode_order sample_order = sample_bytes"
  by (simp add: encode_order_def sample_order_def sample_owner_def sample_bytes_def
      magnitude_bytes.simps nat_to_be_numeral length_prefixed_def utf8_bytes_def)

lemma order_view_sample_order: "order_view sample_order = sample_view"
  by (simp add: order_view_def sample_order_def sample_view_def sample_owner_def
      toString_hex_def hex_digit_def)

lemma parseLimitOrder_sample: "parseLimitOrder 7 sample_bytes = Some sample_view"
proof -
  have "parseLimitOrder (unat (ord_order_id sample_order)) (encode_order sample_order)
        = (if unat (ord_expires_at sample_order) \<le> 8640000000000
           then Some (order_view sample_order) else None)"
    by (rule parseLimitOrder_encode_order)
       (simp_all add: well_formed_sample_order, simp add: sample_order_def)
  moreover have "unat (ord_order_id sample_order) = 7"
    and "unat (ord_expires_at sample_order) \<le> 8640000000000"
    by (simp_all add: sample_order_def)
  ultimately show ?thesis
    by (simp add: encode_sample_order order_view_sample_order)
qed

lemma getLimitOrder_sample:
  "getLimitOrder (Some \<lparr> returnData = Some [sample_bytes], statusCode = 200 \<rparr>) 7 = Some sample_view"
  by (simp add: getLimitOrder_def parseLimitOrder_sample)

lemma decodeFrontendFields_sample:
  "decodeFrontendFields sample_bytes 7 sample_owner =
     Some \<lparr> fe_orderId = 7, fe_user = sample_owner, fe_fromToken = ''USDC-c76f1f'',
            fe_toToken = ''WEGLD-bd4d79'', fe_fromAmount = ''989680'',
            fe_targetPriceNum = ''8cf8bff0b000'', fe_targetPriceDenom = ''03e8'',
            fe_slippageBp = 0, fe_expiresAt = InvalidDate, fe_status = ''Pending'' \<rparr>"
proof -
  have l1: "readUInt32BE sample_bytes 40 = Some 11"
    by (simp add: sample_bytes_def readUInt32BE_def readUIntBE_def be_nat_def)
  have s1: "toString_utf8 (buffer_slice sample_bytes 44 55) = ''USDC-c76f1f''"
    by (simp add: sample_bytes_def buffer_slice_def toString_utf8_def char_of_def bit_Suc_0_iff)
  have l2: "readUInt32BE sample_bytes 55 = Some 3"
    by (simp add: sample_bytes_def readUInt32BE_def readUIntBE_def be_nat_def)
  have s2: "toString_hex (buffer_slice sample_bytes 59 62) = ''989680''"
    by (simp add: sample_bytes_def buffer_slice_def toString_hex_def hex_digit_def)
  have l3: "readUInt32BE sample_bytes 62 = Some 12"
    by (simp add: sample_bytes_def readUInt32BE_def readUIntBE_def be_nat_def)
  have s3: "toString_utf8 (buffer_slice sample_bytes 66 78) = ''WEGLD-bd4d79''"
    by (simp add: sample_bytes_def buffer_slice_def toString_utf8_def char_of_def bit_Suc_0_iff)
  have l4: "readUInt32BE sample_bytes 78 = Some 6"
    by (simp add: sample_bytes_def readUInt32BE_def readUIntBE_def be_nat_def)
  have s4: "toString_hex (buffer_slice sample_bytes 82 88) = ''8cf8bff0b000''"
    by (simp add: sample_bytes_def buffer_slice_def toString_hex_def hex_digit_def)
  have l5: "readUInt32BE sample_bytes 88 = Some 2"
    by (simp add: sample_bytes_def readUInt32BE_def readUIntBE_def be_nat_def)
  have s5: "toString_hex (buffer_slice sample_bytes 92 94) = ''03e8''"
    by (simp add: sample_bytes_def buffer_slice_def toString_hex_def hex_digit_def)
  have l6: "readUInt16BE sample_bytes 94 = Some 0"
    by (simp add: sample_bytes_def readUInt16BE_def readUIntBE_def be_nat_def)
  have l7: "readBigUInt64BE sample_bytes 104 = Some 111411435929600"
    by (simp add: sample_bytes_def readBigUInt64BE_def readUIntBE_def be_nat_def)
  have d: "new_Date (Number_of_BigInt 111411435929600 * 1000) = InvalidDate"
    by (simp add: Number_of_BigInt_def new_Date_def)
  show ?thesis
    unfolding decodeFrontendFields_def
    by (simp add: l1 s1 l2 s2 l3 s3 l4 s4 l5 s5 l6 l7 d)
qed

lemma decodeFrontendOrder_sample:
  "decodeFrontendOrder sample_owner sample_bytes =
     Pushed \<lparr> fe_orderId = 7, fe_user = sample_owner, fe_fromToken = ''USDC-c76f1f'',
            fe_toToken = ''WEGLD-bd4d79'', fe_fromAmount = ''989680'',
            fe_targetPriceNum = ''8cf8bff0b000'', fe_targetPriceDenom = ''03e8'',
            fe_slippageBp = 0, fe_expiresAt = InvalidDate, fe_status = ''Pending'' \<rparr>"
proof -
  have id: "readBigUInt64BE sample_bytes 0 = Some 7"
    by (simp add: sample_bytes_def readBigUInt64BE_def readUIntBE_def be_nat_def)
  have key: "buffer_slice sample_bytes 8 40 = sample_owner"
    by (simp add: sample_bytes_def sample_owner_def buffer_slice_def)
  have len: "length sample_owner = 32"
    by (simp add: sample_owner_def)
  have n7: "Number_of_BigInt 7 = 7"
    by (simp add: Number_of_BigInt_def)
  show ?thesis
    by (simp add: decodeFrontendOrder_def id key len n7 decodeFrontendFields_sample)
qed




text \<open>
  Claim C10 says that the frontend decoder and the executor decoder return the same
  slippage and the same expiry for every serialised order. On the serialisation of the
  sample order the executor decodes slippage 500 and expiry 1700003600, while the frontend,
  which reads the slippage as 2 bytes and then skips 8 bytes, decodes slippage 0 and an
  expiry of 111411435929600 seconds, an Invalid Date.
\<close>

theorem frontend_decoder_differs_from_executor_decoder:
  "well_formed_order sample_order
   \<and> encode_order sample_order = sample_bytes
   \<and> getLimitOrder (Some \<lparr> returnData = Some [sample_bytes], statusCode = 200 \<rparr>) 7
       = Some sample_view
   \<and> slippage_bp sample_view = 500
   \<and> expires_at sample_view = 1700003600
   \<and> getUserPendingOrders
         (Some \<lparr> ok = True, returnCode = ''ok'', pendingData = Some [sample_bytes] \<rparr>) sample_owner
       = [\<lparr> fe_orderId = 7, fe_user = sample_owner, fe_fromToken = ''USDC-c76f1f'',
            fe_toToken = ''WEGLD-bd4d79'', fe_fromAmount = ''989680'',
            fe_targetPriceNum = ''8cf8bff0b000'', fe_targetPriceDenom = ''03e8'',
            fe_slippageBp = 0, fe_expiresAt = InvalidDate, fe_status = ''Pending'' \<rparr>]"
  by (simp add: well_formed_sample_order encode_sample_order getLimitOrder_sample
      getUserPendingOrders_def decodeFrontendOrder_sample sample_view_def)

subsection \<open>Price conversion\<close>

lemmas double_eval =
  toDouble_def roundPositive_def roundHalfEven_def ilog2_def pow2_def negate_def
  bit_length.simps Let_def

lemmas number_eval =
  js_mul_def js_div_def js_le_def isZero_def isInfinite_def isNegative_def isFalsy_def
  finiteValue_def Math_floor_def BigInt_of_number_def Math_pow10_def

lemma Math_pow10_exact: "0 \<le> e \<Longrightarrow> e \<le> 22 \<Longrightarrow> Math_pow10 e = Finite (10 ^ nat e)"
  by (simp add: Math_pow10_def)

lemma executeOrder_fraction_Some:
  "executeOrder_fraction p (Some f) (Some t) =
     (if min 6 (15 - \<bar>t - f\<bar>) < 0 then Inl RangeError
      else (case BigInt_of_number
                   (Math_floor (js_mul p (Math_pow10 (min 6 (15 - \<bar>t - f\<bar>) + (t - f))))) of
              None \<Rightarrow> Inl RangeError
            | Some n \<Rightarrow> Inr (n, 10 ^ nat (min 6 (15 - \<bar>t - f\<bar>)))))"
  by (simp only: executeOrder_fraction_def Let_def option.case)

lemma calculateTargetPriceWithDecimals_eq:
  "calculateTargetPriceWithDecimals p f t =
     \<lparr> numerator = Math_floor (js_mul p (Math_pow10 (min 6 (15 - \<bar>t - f\<bar>) + (t - f)))),
       denominator = Math_pow10 (min 6 (15 - \<bar>t - f\<bar>)) \<rparr>"
  by (simp only: calculateTargetPriceWithDecimals_def Let_def)



lemma product_of_one: "js_mul (Finite 1) (Finite 1000000000000000) = Finite 1000000000000000"
  by (simp add: number_eval double_eval)




text \<open>
  Claim C5 says that the conversion reports an error whenever \<open>\<bar>\<Delta>\<bar> \<ge> 15\<close>. At \<open>\<Delta> = 15\<close>
  both conversions return a pair with denominator 1, and at \<open>\<Delta> = 18\<close> the frontend returns
  a pair.
\<close>

theorem conversion_returns_at_delta_15_and_18:
  "executeOrder_fraction (Finite 1) (Some 0) (Some 15) = Inr (1000000000000000, 1)
   \<and> calculateTargetPriceWithDecimals (Finite 1) 0 15 =
       \<lparr> numerator = Finite 1000000000000000, denominator = Finite 1 \<rparr>
   \<and> calculateTargetPriceWithDecimals (Finite 1) 0 18 =
       \<lparr> numerator = Finite 1000000000000000, denominator = Math_pow10 (- 3) \<rparr>"
  by (simp add: executeOrder_fraction_Some calculateTargetPriceWithDecimals_eq Math_pow10_exact
      product_of_one Math_floor_def BigInt_of_number_def)

text \<open>
  Claim C5, as amended. The executor's conversion fails whenever \<open>PRECISION\<close> is negative,
  that is for every pair of decimal counts with \<open>\<bar>\<Delta>\<bar> \<ge> 16\<close>, and what it throws is the
  RangeError of the BigInt power; the frontend's conversion reports no error there and
  returns a pair.
\<close>

theorem executor_conversion_fails_beyond_15:
  assumes "16 \<le> \<bar>toDecimals - fromDecimals\<bar>"
  shows "executeOrder_fraction p (Some fromDecimals) (Some toDecimals) = Inl RangeError
         \<and> calculateTargetPriceWithDecimals p fromDecimals toDecimals =
             \<lparr> numerator =
                 Math_floor (js_mul p (Math_pow10 (min 6 (15 - \<bar>toDecimals - fromDecimals\<bar>)
                                                   + (toDecimals - fromDecimals)))),
               denominator = Math_pow10 (min 6 (15 - \<bar>toDecimals - fromDecimals\<bar>)) \<rparr>"
  using assms by (simp add: executeOrder_fraction_Some calculateTargetPriceWithDecimals_eq)

text \<open>Claim C5, as amended, from 0 to 18 decimals.\<close>

theorem executor_conversion_fails_beyond_15_witness:
  "(16 :: int) \<le> \<bar>18 - 0\<bar>
   \<and> executeOrder_fraction (Finite 1) (Some 0) (Some 18) = Inl RangeError
   \<and> calculateTargetPriceWithDecimals (Finite 1) 0 18 =
       \<lparr> numerator = Finite 1000000000000000, denominator = Math_pow10 (- 3) \<rparr>"
  using executor_conversion_fails_beyond_15 [of 18 0 "Finite 1"]
  by (simp add: Math_pow10_exact product_of_one Math_floor_def)

subsection \<open>The executor\<close>

lemma waitLoop_sends_nothing: "SendTransaction oid n d \<notin> set (waitLoop polls i remaining)"
  by (induction remaining arbitrary: i) (simp_all split: tx_poll.split)

lemma executeOrder_sends_iff:
  "SendTransaction oid n d \<in> set (snd (executeOrder env ex orderId p fromDecimals toDecimals))
   \<longleftrightarrow> oid = orderId
       \<and> executorAddress ex \<noteq> None
       \<and> executeOrder_fraction p fromDecimals toDecimals = Inr (n, d)
       \<and> accountNonce env \<noteq> None"
  by (auto simp add: executeOrder_def waitForTransaction_def waitLoop_sends_nothing
      split: sum.splits option.splits)

lemma checkAndExecuteOrder_triggered:
  assumes "\<not> onCooldown ex now orderId"
    and "getLimitOrder (orderResponse env) orderId = Some order"
    and "now div 1000 \<le> int (expires_at order)"
    and "getTokenPairPrice (pairsResponse env) (from_token order) (to_token order) = Some p"
    and "\<not> isFalsy p"
    and "priceConditionMet p (target_price_numerator order) (target_price_denominator order)"
  shows "checkAndExecuteOrder env ex now orderId =
           (case executeOrder env (ex\<lparr>attemptedOrders := AList.update orderId now (attemptedOrders ex)\<rparr>)
                   orderId p (getTokenDecimals (from_token order)) (getTokenDecimals (to_token order)) of
              (Inr u, evs) \<Rightarrow>
                (ex\<lparr>attemptedOrders :=
                       AList.delete orderId (AList.update orderId now (attemptedOrders ex))\<rparr>,
                 [QueryOrder orderId, QueryPairs] @ evs)
            | (Inl e, evs) \<Rightarrow>
                (ex\<lparr>attemptedOrders := AList.update orderId now (attemptedOrders ex)\<rparr>,
                 [QueryOrder orderId, QueryPairs] @ evs))"
  using assms by (simp add: checkAndExecuteOrder_def Let_def split: prod.splits sum.splits)

lemma checkAndExecuteOrder_not_triggered:
  assumes "\<not> onCooldown ex now orderId"
    and "getLimitOrder (orderResponse env) orderId = Some order"
    and "now div 1000 \<le> int (expires_at order)"
    and "getTokenPairPrice (pairsResponse env) (from_token order) (to_token order) = Some p"
    and "\<not> isFalsy p"
    and "\<not> priceConditionMet p (target_price_numerator order) (target_price_denominator order)"
  shows "checkAndExecuteOrder env ex now orderId = (ex, [QueryOrder orderId, QueryPairs])"
  using assms by (simp add: checkAndExecuteOrder_def Let_def)

lemma order_dropped_after_expiry:
  assumes "\<not> onCooldown ex now orderId"
    and "getLimitOrder (orderResponse env) orderId = Some order"
    and "int (expires_at order) < now div 1000"
  shows "checkAndExecuteOrder env ex now orderId =
           (ex\<lparr>attemptedOrders := AList.delete orderId (attemptedOrders ex)\<rparr>, [QueryOrder orderId])"
  using assms by (simp add: checkAndExecuteOrder_def Let_def)

lemma cooldown_entry_removed_whenever_transaction_was_sent:
  assumes "\<not> onCooldown ex now orderId"
    and "getLimitOrder (orderResponse env) orderId = Some order"
    and "now div 1000 \<le> int (expires_at order)"
    and "getTokenPairPrice (pairsResponse env) (from_token order) (to_token order) = Some p"
    and "\<not> isFalsy p"
    and "priceConditionMet p (target_price_numerator order) (target_price_denominator order)"
    and "executorAddress ex \<noteq> None"
    and "executeOrder_fraction p (getTokenDecimals (from_token order))
           (getTokenDecimals (to_token order)) = Inr (n, d)"
    and "accountNonce env \<noteq> None"
    and "sendOk env"
  shows "map_of (attemptedOrders (fst (checkAndExecuteOrder env ex now orderId))) orderId = None"
  using assms(7-10)
  by (auto simp add: checkAndExecuteOrder_triggered [OF assms(1-6)] executeOrder_def
      AList.delete_conv')

subsection \<open>The executor on the sample orders\<close>

lemma waitLoop_numeral:
  "waitLoop polls i (numeral k) =
     GetTransaction #
       (case polls i of
          StatusSuccessful \<Rightarrow> [LogTxSuccessful]
        | StatusFailed \<Rightarrow> [LogTxFailed]
        | StatusOther \<Rightarrow> waitLoop polls (Suc i) (pred_numeral k)
        | PollThrows \<Rightarrow> waitLoop polls (Suc i) (pred_numeral k))"
  by (simp add: numeral_eq_Suc [of k])

lemma waitLoop_StatusOther:
  "waitLoop (\<lambda>i. StatusOther) i n = replicate n GetTransaction @ [LogTxPending]"
  by (induction n arbitrary: i) simp_all

lemma waitForTransaction_successful:
  "waitForTransaction (\<lambda>i. StatusSuccessful) = [GetTransaction, LogTxSuccessful]"
  by (simp add: waitForTransaction_def waitLoop_numeral)

lemma waitForTransaction_failed:
  "waitForTransaction (\<lambda>i. StatusFailed) = [GetTransaction, LogTxFailed]"
  by (simp add: waitForTransaction_def waitLoop_numeral)

lemma waitForTransaction_pending:
  "waitForTransaction (\<lambda>i. StatusOther) = replicate 20 GetTransaction @ [LogTxPending]"
  by (simp add: waitForTransaction_def waitLoop_StatusOther)

text \<open>The price of the sample pool is the double nearest to 0.15.\<close>

lemma sample_price:
  "getTokenPairPrice (Some [sample_pair]) ''USDC-c76f1f'' ''WEGLD-bd4d79''
   = Some (Finite (5404319552844595 / 36028797018963968))"
  by (simp add: getTokenPairPrice_def sample_pair_def number_eval double_eval)

lemma sample_price_truthy: "\<not> isFalsy (Finite (5404319552844595 / 36028797018963968))"
  by (simp add: isFalsy_def isZero_def)

lemma sample_target: "targetPriceOf 155000000000000 1000 = Finite 155000000000"
  by (simp add: targetPriceOf_def parseFloat_decimal_def number_eval double_eval)

lemma sample_met:
  "priceConditionMet (Finite (5404319552844595 / 36028797018963968)) 155000000000000 1000"
  by (simp add: priceConditionMet_def sample_target js_le_def isInfinite_def finiteValue_def)

lemma registry_decimals:
  "getTokenDecimals ''USDC-c76f1f'' = Some 6" "getTokenDecimals ''WEGLD-bd4d79'' = Some 18"
  by (simp_all add: getTokenDecimals_def TOKEN_DECIMALS_def)

lemma sample_product:
  "js_mul (Finite (5404319552844595 / 36028797018963968)) (Finite 1000000000000000)
   = Finite 150000000000000"
  by (simp add: number_eval double_eval)

lemma sample_fraction:
  "executeOrder_fraction (Finite (5404319552844595 / 36028797018963968))
     (getTokenDecimals ''USDC-c76f1f'') (getTokenDecimals ''WEGLD-bd4d79'')
   = Inr (150000000000000, 1000)"
  by (simp add: registry_decimals executeOrder_fraction_Some Math_pow10_exact sample_product
      Math_floor_def BigInt_of_number_def)

lemma sample_not_on_cooldown: "\<not> onCooldown ready_executor now 7"
  by (simp add: onCooldown_def ready_executor_def new_LimitOrderExecutor_def)

lemma sample_order_fetched:
  "getLimitOrder (orderResponse (sample_env poll)) 7 = Some sample_view"
  by (simp add: sample_env_def getLimitOrder_sample)

lemma sample_price_fetched:
  "getTokenPairPrice (pairsResponse (sample_env poll)) (from_token sample_view)
     (to_token sample_view) = Some (Finite (5404319552844595 / 36028797018963968))"
  by (simp add: sample_env_def sample_view_def sample_price)

lemma sample_view_met:
  "priceConditionMet (Finite (5404319552844595 / 36028797018963968))
     (target_price_numerator sample_view) (target_price_denominator sample_view)"
  by (simp add: sample_view_def sample_met)

lemma sample_view_fraction:
  "executeOrder_fraction (Finite (5404319552844595 / 36028797018963968))
     (getTokenDecimals (from_token sample_view)) (getTokenDecimals (to_token sample_view))
   = Inr (150000000000000, 1000)"
  by (simp add: sample_view_def sample_fraction)

lemma checkAndExecuteOrder_sample:
  assumes "now div 1000 \<le> 1700003600"
  shows "checkAndExecuteOrder (sample_env poll) ready_executor now 7 =
           (ready_executor,
            [QueryOrder 7, QueryPairs, GetAccount, SendTransaction 7 150000000000000 1000]
            @ waitForTransaction (\<lambda>i. poll))"
proof -
  have exp: "now div 1000 \<le> int (expires_at sample_view)"
    using assms by (simp add: sample_view_def)
  show ?thesis
    by (simp add: checkAndExecuteOrder_triggered [OF sample_not_on_cooldown sample_order_fetched
          exp sample_price_fetched sample_price_truthy sample_view_met]
        executeOrder_def sample_view_fraction)
       (simp add: sample_env_def ready_executor_def new_LimitOrderExecutor_def)
qed

text \<open>The order with the target 1/10 and the pool that quotes the double nearest to 0.1.\<close>

lemma tenth_order_fetched:
  "getLimitOrder (orderResponse tenth_env) 7 = Some (order_view tenth_order)"
proof -
  have wf: "well_formed_order tenth_order"
    by (simp add: well_formed_order_def tenth_order_def sample_order_def sample_owner_def
        magnitude_bytes.simps)
  have exp: "unat (ord_expires_at tenth_order) = 1700003600"
    by (simp add: tenth_order_def sample_order_def)
  have id: "unat (ord_order_id tenth_order) = 7"
    by (simp add: tenth_order_def sample_order_def)
  have "parseLimitOrder (unat (ord_order_id tenth_order)) (encode_order tenth_order)
        = (if unat (ord_expires_at tenth_order) \<le> 8640000000000
           then Some (order_view tenth_order) else None)"
    using wf by (rule parseLimitOrder_encode_order) (simp add: exp)
  then have "parseLimitOrder 7 (encode_order tenth_order) = Some (order_view tenth_order)"
    by (simp add: exp id)
  then show ?thesis
    by (simp add: getLimitOrder_def tenth_env_def)
qed

lemma tenth_view:
  "from_token (order_view tenth_order) = ''USDC-c76f1f''"
  "to_token (order_view tenth_order) = ''WEGLD-bd4d79''"
  "target_price_numerator (order_view tenth_order) = 1"
  "target_price_denominator (order_view tenth_order) = 10"
  "expires_at (order_view tenth_order) = 1700003600"
  by (simp_all add: order_view_def tenth_order_def sample_order_def)

lemma tenth_price:
  "getTokenPairPrice (pairsResponse tenth_env) ''USDC-c76f1f'' ''WEGLD-bd4d79''
   = Some (Finite (3602879701896397 / 36028797018963968))"
  by (simp add: getTokenPairPrice_def tenth_env_def number_eval double_eval)

lemma tenth_target: "targetPriceOf (Suc 0) 10 = Finite (3602879701896397 / 36028797018963968)"
  by (simp add: targetPriceOf_def parseFloat_decimal_def number_eval double_eval)

lemma tenth_product:
  "js_mul (Finite (3602879701896397 / 36028797018963968)) (Finite 1000000000000000)
   = Finite 100000000000000"
  by (simp add: number_eval double_eval)

lemma checkAndExecuteOrder_tenth:
  "checkAndExecuteOrder tenth_env ready_executor 1700000000000 7 =
     (ready_executor,
      [QueryOrder 7, QueryPairs, GetAccount, SendTransaction 7 100000000000000 1000,
       GetTransaction, LogTxSuccessful])"
proof -
  let ?p = "Finite (3602879701896397 / 36028797018963968)"
  have exp: "(1700000000000 :: int) div 1000 \<le> int (expires_at (order_view tenth_order))"
    by (simp add: tenth_view)
  have price: "getTokenPairPrice (pairsResponse tenth_env) (from_token (order_view tenth_order))
                 (to_token (order_view tenth_order)) = Some ?p"
    by (simp add: tenth_view tenth_price)
  have truthy: "\<not> isFalsy ?p"
    by (simp add: isFalsy_def isZero_def)
  have met: "priceConditionMet ?p (target_price_numerator (order_view tenth_order))
               (target_price_denominator (order_view tenth_order))"
    by (simp add: tenth_view priceConditionMet_def tenth_target js_le_def isInfinite_def
        finiteValue_def)
  have frac: "executeOrder_fraction ?p (getTokenDecimals (from_token (order_view tenth_order)))
                (getTokenDecimals (to_token (order_view tenth_order))) = Inr (100000000000000, 1000)"
    by (simp add: tenth_view registry_decimals executeOrder_fraction_Some Math_pow10_exact
        tenth_product Math_floor_def BigInt_of_number_def)
  show ?thesis
    by (simp add: checkAndExecuteOrder_triggered [OF sample_not_on_cooldown tenth_order_fetched
          exp price truthy met]
        executeOrder_def frac)
       (simp add: tenth_env_def ready_executor_def new_LimitOrderExecutor_def
          waitForTransaction_successful)
qed

text \<open>The sample order when the nonce query fails, and on an executor without a wallet.\<close>

lemma checkAndExecuteOrder_without_nonce:
  "checkAndExecuteOrder ((sample_env StatusSuccessful)\<lparr>accountNonce := None\<rparr>) ready_executor
       1700000000000 7 =
     (ready_executor\<lparr>attemptedOrders := [(7, 1700000000000)]\<rparr>,
      [QueryOrder 7, QueryPairs, GetAccount])"
proof -
  let ?env = "(sample_env StatusSuccessful)\<lparr>accountNonce := None\<rparr>"
  have fetched: "getLimitOrder (orderResponse ?env) 7 = Some sample_view"
    using sample_order_fetched [of StatusSuccessful] by simp
  have exp: "(1700000000000 :: int) div 1000 \<le> int (expires_at sample_view)"
    by (simp add: sample_view_def)
  have price: "getTokenPairPrice (pairsResponse ?env) (from_token sample_view)
                 (to_token sample_view) = Some (Finite (5404319552844595 / 36028797018963968))"
    using sample_price_fetched [of StatusSuccessful] by simp
  show ?thesis
    by (simp add: checkAndExecuteOrder_triggered [OF sample_not_on_cooldown fetched exp price
          sample_price_truthy sample_view_met]
        executeOrder_def sample_view_fraction)
       (simp add: ready_executor_def new_LimitOrderExecutor_def)
qed

lemma checkAndExecuteOrder_without_wallet:
  "checkAndExecuteOrder (sample_env StatusSuccessful) new_LimitOrderExecutor 1700000000000 7 =
     (new_LimitOrderExecutor\<lparr>attemptedOrders := [(7, 1700000000000)]\<rparr>,
      [QueryOrder 7, QueryPairs])"
proof -
  have cool: "\<not> onCooldown new_LimitOrderExecutor 1700000000000 7"
    by (simp add: onCooldown_def new_LimitOrderExecutor_def)
  have exp: "(1700000000000 :: int) div 1000 \<le> int (expires_at sample_view)"
    by (simp add: sample_view_def)
  show ?thesis
    by (simp add: checkAndExecuteOrder_triggered [OF cool sample_order_fetched exp
          sample_price_fetched sample_price_truthy sample_view_met]
        executeOrder_def)
       (simp add: new_LimitOrderExecutor_def)
qed

text \<open>The order whose bought token is called \<^verbatim>\<open>toString\<close>.\<close>

lemma member_token_order_fetched:
  "getLimitOrder (orderResponse member_token_env) 7 = Some (order_view member_token_order)"
proof -
  have wf: "well_formed_order member_token_order"
    by (simp add: well_formed_order_def member_token_order_def sample_order_def sample_owner_def
        magnitude_bytes.simps)
  have exp: "unat (ord_expires_at member_token_order) = 1700003600"
    by (simp add: member_token_order_def sample_order_def)
  have id: "unat (ord_order_id member_token_order) = 7"
    by (simp add: member_token_order_def sample_order_def)
  have "parseLimitOrder (unat (ord_order_id member_token_order)) (encode_order member_token_order)
        = (if unat (ord_expires_at member_token_order) \<le> 8640000000000
           then Some (order_view member_token_order) else None)"
    using wf by (rule parseLimitOrder_encode_order) (simp add: exp)
  then have "parseLimitOrder 7 (encode_order member_token_order)
             = Some (order_view member_token_order)"
    by (simp add: exp id)
  then show ?thesis
    by (simp add: getLimitOrder_def member_token_env_def)
qed

lemma member_token_view:
  "from_token (order_view member_token_order) = ''USDC-c76f1f''"
  "to_token (order_view member_token_order) = ''toString''"
  "target_price_numerator (order_view member_token_order) = 155000000000000"
  "target_price_denominator (order_view member_token_order) = 1000"
  "expires_at (order_view member_token_order) = 1700003600"
  by (simp_all add: order_view_def member_token_order_def sample_order_def)

lemma member_token_price:
  "getTokenPairPrice (pairsResponse member_token_env) ''USDC-c76f1f'' ''toString''
   = Some (Finite (5404319552844595 / 36028797018963968))"
  by (simp add: getTokenPairPrice_def member_token_env_def number_eval double_eval)

lemma member_token_decimals: "getTokenDecimals ''toString'' = None"
  by (simp add: getTokenDecimals_def TOKEN_DECIMALS_def OBJECT_PROTOTYPE_MEMBERS_def)

lemma checkAndExecuteOrder_member_token:
  "checkAndExecuteOrder member_token_env ready_executor 1700000000000 7 =
     (ready_executor\<lparr>attemptedOrders := [(7, 1700000000000)]\<rparr>, [QueryOrder 7, QueryPairs])"
proof -
  let ?p = "Finite (5404319552844595 / 36028797018963968)"
  have exp: "(1700000000000 :: int) div 1000 \<le> int (expires_at (order_view member_token_order))"
    by (simp add: member_token_view)
  have price: "getTokenPairPrice (pairsResponse member_token_env)
                 (from_token (order_view member_token_order))
                 (to_token (order_view member_token_order)) = Some ?p"
    by (simp add: member_token_view member_token_price)
  have met: "priceConditionMet ?p (target_price_numerator (order_view member_token_order))
               (target_price_denominator (order_view member_token_order))"
    by (simp add: member_token_view sample_met)
  have frac: "executeOrder_fraction ?p (getTokenDecimals (from_token (order_view member_token_order)))
                (getTokenDecimals (to_token (order_view member_token_order))) = Inl RangeError"
    by (simp add: member_token_view member_token_decimals registry_decimals
        executeOrder_fraction_def)
  show ?thesis
    by (simp add: checkAndExecuteOrder_triggered [OF sample_not_on_cooldown
          member_token_order_fetched exp price sample_price_truthy met]
        executeOrder_def frac)
       (simp add: ready_executor_def new_LimitOrderExecutor_def)
qed

text \<open>
  Claim C1 says that, for a fetched, unexpired order off cooldown with a spot price \<open>p\<close>, a
  transaction is submitted if and only if \<open>p \<le> target_num / target_denom\<close>. The executor
  compares doubles: against the target 1/10, the pool price that is the double nearest to
  0.1 lies above the target, and the transaction is sent. And a price at or below the
  target is not enough: nothing is sent when the nonce query fails, when the wallet was
  never loaded, or when the price conversion throws, as it does for a token identifier
  that names a member of \<^verbatim>\<open>Object.prototype\<close>.
\<close>

theorem trigger_compares_doubles_and_needs_a_built_transaction:
  "getLimitOrder (orderResponse tenth_env) 7 = Some (order_view tenth_order)
   \<and> target_price_numerator (order_view tenth_order) = 1
   \<and> target_price_denominator (order_view tenth_order) = 10
   \<and> getTokenPairPrice (pairsResponse tenth_env) (from_token (order_view tenth_order))
         (to_token (order_view tenth_order))
       = Some (Finite (3602879701896397 / 36028797018963968))
   \<and> (1 / 10 :: real) < 3602879701896397 / 36028797018963968
   \<and> checkAndExecuteOrder tenth_env ready_executor 1700000000000 7 =
       (ready_executor,
        [QueryOrder 7, QueryPairs, GetAccount, SendTransaction 7 100000000000000 1000,
         GetTransaction, LogTxSuccessful])
   \<and> priceConditionMet (Finite (5404319552844595 / 36028797018963968)) 155000000000000 1000
   \<and> checkAndExecuteOrder ((sample_env StatusSuccessful)\<lparr>accountNonce := None\<rparr>) ready_executor
         1700000000000 7 =
       (ready_executor\<lparr>attemptedOrders := [(7, 1700000000000)]\<rparr>,
        [QueryOrder 7, QueryPairs, GetAccount])
   \<and> checkAndExecuteOrder (sample_env StatusSuccessful) new_LimitOrderExecutor 1700000000000 7 =
       (new_LimitOrderExecutor\<lparr>attemptedOrders := [(7, 1700000000000)]\<rparr>,
        [QueryOrder 7, QueryPairs])
   \<and> checkAndExecuteOrder member_token_env ready_executor 1700000000000 7 =
       (ready_executor\<lparr>attemptedOrders := [(7, 1700000000000)]\<rparr>, [QueryOrder 7, QueryPairs])"
proof -
  have "(1 / 10 :: real) < 3602879701896397 / 36028797018963968"
    by simp
  then show ?thesis
    by (simp add: tenth_order_fetched tenth_view tenth_price checkAndExecuteOrder_tenth sample_met
        checkAndExecuteOrder_without_nonce checkAndExecuteOrder_without_wallet
        checkAndExecuteOrder_member_token)
qed

text \<open>
  Claim C1, as amended. For a fetched order that is not on cooldown and not expired, and
  for which a spot price \<open>p\<close> was obtained (a double other than zero and NaN), the executor
  submits an \<^verbatim>\<open>executeLimitOrder\<close> transaction, for that order and with the fraction of
  the price conversion, if and only if \<open>p\<close> is at most the double quotient of the target's
  numerator and denominator (a tie triggers, and nothing is submitted when \<open>p\<close> is above
  it) and the transaction can be built: the wallet is loaded, the price conversion returns
  a pair and the nonce query answers.
\<close>

theorem transaction_submitted_iff_triggered_and_built:
  assumes cooldown: "\<not> onCooldown ex now orderId"
    and fetched: "getLimitOrder (orderResponse env) orderId = Some order"
    and unexpired: "now div 1000 \<le> int (expires_at order)"
    and price: "getTokenPairPrice (pairsResponse env) (from_token order) (to_token order) = Some p"
    and obtained: "\<not> isFalsy p"
  shows "SendTransaction oid n d \<in> set (snd (checkAndExecuteOrder env ex now orderId))
         \<longleftrightarrow> oid = orderId
             \<and> js_le p (targetPriceOf (target_price_numerator order) (target_price_denominator order))
             \<and> executorAddress ex \<noteq> None
             \<and> executeOrder_fraction p (getTokenDecimals (from_token order))
                   (getTokenDecimals (to_token order)) = Inr (n, d)
             \<and> accountNonce env \<noteq> None"
proof (cases "priceConditionMet p (target_price_numerator order) (target_price_denominator order)")
  case True
  let ?ex1 = "ex\<lparr>attemptedOrders := AList.update orderId now (attemptedOrders ex)\<rparr>"
  let ?run = "executeOrder env ?ex1 orderId p (getTokenDecimals (from_token order))
                (getTokenDecimals (to_token order))"
  obtain r evs where run: "?run = (r, evs)"
    by (cases ?run)
  have "SendTransaction oid n d \<in> set (snd (checkAndExecuteOrder env ex now orderId))
        \<longleftrightarrow> SendTransaction oid n d \<in> set (snd ?run)"
    by (cases r)
       (simp_all add: checkAndExecuteOrder_triggered [OF cooldown fetched unexpired price obtained True]
          run)
  moreover have "executorAddress ?ex1 = executorAddress ex"
    by simp
  ultimately show ?thesis
    using True by (simp add: executeOrder_sends_iff priceConditionMet_def)
next
  case False
  then show ?thesis
    by (simp add: checkAndExecuteOrder_not_triggered [OF cooldown fetched unexpired price obtained False]
        priceConditionMet_def [symmetric])
qed

text \<open>Claim C1, as amended, at the sample order: the double nearest to 0.15 against the
  target 155000000000.\<close>

theorem transaction_submitted_iff_triggered_and_built_witness:
  "\<not> onCooldown ready_executor 1700000000000 7
   \<and> getLimitOrder (orderResponse (sample_env StatusSuccessful)) 7 = Some sample_view
   \<and> (1700000000000 :: int) div 1000 \<le> int (expires_at sample_view)
   \<and> getTokenPairPrice (pairsResponse (sample_env StatusSuccessful)) (from_token sample_view)
         (to_token sample_view) = Some (Finite (5404319552844595 / 36028797018963968))
   \<and> \<not> isFalsy (Finite (5404319552844595 / 36028797018963968))
   \<and> js_le (Finite (5404319552844595 / 36028797018963968))
         (targetPriceOf (target_price_numerator sample_view) (target_price_denominator sample_view))
   \<and> SendTransaction 7 150000000000000 1000
       \<in> set (snd (checkAndExecuteOrder (sample_env StatusSuccessful) ready_executor 1700000000000 7))"
proof -
  have h3: "(1700000000000 :: int) div 1000 \<le> int (expires_at sample_view)"
    by (simp add: sample_view_def)
  have met: "js_le (Finite (5404319552844595 / 36028797018963968))
               (targetPriceOf (target_price_numerator sample_view) (target_price_denominator sample_view))"
    using sample_view_met by (simp add: priceConditionMet_def)
  have wallet: "executorAddress ready_executor \<noteq> None"
    by (simp add: ready_executor_def)
  have nonce: "accountNonce (sample_env StatusSuccessful) \<noteq> None"
    by (simp add: sample_env_def)
  show ?thesis
    using transaction_submitted_iff_triggered_and_built
        [OF sample_not_on_cooldown sample_order_fetched h3 sample_price_fetched sample_price_truthy,
         of 7 150000000000000 1000]
      sample_not_on_cooldown [of 1700000000000] sample_order_fetched [of StatusSuccessful] h3
      sample_price_fetched [of StatusSuccessful] sample_price_truthy met wallet nonce
      sample_view_fraction
    by simp
qed

text \<open>
  Claim C3 says that two sweeps within one cooldown window submit at most one transaction
  per order. The executor removes the cooldown entry once the transaction is confirmed, so
  when the order is still listed 30 seconds later the second sweep submits it again.
\<close>

theorem second_sweep_within_cooldown_submits_again:
  "checkAndExecuteOrders [(7, 1700000000000, sample_env StatusSuccessful)] ready_executor =
     (ready_executor,
      [QueryOrder 7, QueryPairs, GetAccount, SendTransaction 7 150000000000000 1000,
       GetTransaction, LogTxSuccessful])
   \<and> checkAndExecuteOrders [(7, 1700000030000, sample_env StatusSuccessful)]
         (fst (checkAndExecuteOrders [(7, 1700000000000, sample_env StatusSuccessful)] ready_executor)) =
     (ready_executor,
      [QueryOrder 7, QueryPairs, GetAccount, SendTransaction 7 150000000000000 1000,
       GetTransaction, LogTxSuccessful])
   \<and> (1700000030000 :: int) - 1700000000000 < cooldownPeriod ready_executor"
proof -
  have running: "isRunning ready_executor"
    by (simp add: ready_executor_def)
  have first: "checkAndExecuteOrders [(7, 1700000000000, sample_env StatusSuccessful)] ready_executor =
     (ready_executor,
      [QueryOrder 7, QueryPairs, GetAccount, SendTransaction 7 150000000000000 1000,
       GetTransaction, LogTxSuccessful])"
    using running
    by (simp add: checkAndExecuteOrders_def checkAndExecuteOrder_sample waitForTransaction_successful)
  have second: "checkAndExecuteOrders [(7, 1700000030000, sample_env StatusSuccessful)] ready_executor =
     (ready_executor,
      [QueryOrder 7, QueryPairs, GetAccount, SendTransaction 7 150000000000000 1000,
       GetTransaction, LogTxSuccessful])"
    using running
    by (simp add: checkAndExecuteOrders_def checkAndExecuteOrder_sample waitForTransaction_successful)
  have window: "(1700000030000 :: int) - 1700000000000 < cooldownPeriod ready_executor"
    by (simp add: ready_executor_def new_LimitOrderExecutor_def)
  show ?thesis
    using second window by (simp add: first)
qed

text \<open>
  Claim C3, as amended. If the cooldown entry that the executor recorded for an order at
  time \<open>t\<close> is still in place, processing the order again at a time \<open>now\<close> with
  \<open>now - t < COOLDOWN\<close> changes nothing and makes no network call: no second transaction is
  submitted.
\<close>

theorem order_with_cooldown_entry_is_skipped:
  assumes "map_of (attemptedOrders ex) orderId = Some t"
    and "t \<noteq> 0"
    and "now - t < cooldownPeriod ex"
  shows "checkAndExecuteOrder env ex now orderId = (ex, [])"
  using assms by (simp add: checkAndExecuteOrder_def onCooldown_def)

text \<open>Claim C3, as amended, with an entry recorded 30 seconds earlier.\<close>

theorem order_with_cooldown_entry_is_skipped_witness:
  "map_of (attemptedOrders (ready_executor\<lparr>attemptedOrders := [(7, 1700000000000)]\<rparr>)) 7 = Some 1700000000000
   \<and> (1700000000000 :: int) \<noteq> 0
   \<and> 1700000030000 - 1700000000000 < cooldownPeriod (ready_executor\<lparr>attemptedOrders := [(7, 1700000000000)]\<rparr>)
   \<and> checkAndExecuteOrder (sample_env StatusSuccessful)
         (ready_executor\<lparr>attemptedOrders := [(7, 1700000000000)]\<rparr>) 1700000030000 7
       = (ready_executor\<lparr>attemptedOrders := [(7, 1700000000000)]\<rparr>, [])"
proof -
  let ?ex = "ready_executor\<lparr>attemptedOrders := [(7, 1700000000000)]\<rparr>"
  have h1: "map_of (attemptedOrders ?ex) 7 = Some 1700000000000"
    by simp
  have h2: "(1700000000000 :: int) \<noteq> 0"
    by simp
  have h3: "1700000030000 - 1700000000000 < cooldownPeriod ?ex"
    by (simp add: ready_executor_def new_LimitOrderExecutor_def)
  show ?thesis
    using order_with_cooldown_entry_is_skipped [OF h1 h2 h3] h1 h3
    by simp
qed

text \<open>
  Claim C4 says that the cooldown entry stays in place when the transaction fails or its
  confirmation times out. On the sample order, with a transaction that the chain reports
  as failed and with one that is still pending after 20 polls, \<^verbatim>\<open>waitForTransaction\<close>
  returns normally and the executor removes the entry in both cases.
\<close>

theorem cooldown_entry_removed_after_failed_or_unconfirmed_transaction:
  "checkAndExecuteOrder (sample_env StatusFailed) ready_executor 1700000000000 7 =
     (ready_executor,
      [QueryOrder 7, QueryPairs, GetAccount, SendTransaction 7 150000000000000 1000,
       GetTransaction, LogTxFailed])
   \<and> checkAndExecuteOrder (sample_env StatusOther) ready_executor 1700000000000 7 =
     (ready_executor,
      [QueryOrder 7, QueryPairs, GetAccount, SendTransaction 7 150000000000000 1000]
      @ replicate 20 GetTransaction @ [LogTxPending])
   \<and> map_of (attemptedOrders ready_executor) 7 = None"
  by (simp add: checkAndExecuteOrder_sample waitForTransaction_failed waitForTransaction_pending)
     (simp add: ready_executor_def new_LimitOrderExecutor_def)

text \<open>
  Claim C7 says that an order is dropped as soon as \<open>now \<ge> expires_at\<close>, the case
  \<open>now = expires_at\<close> included. The executor tests \<open>nowSeconds > expires_at\<close>: in the second
  of its expiry the sample order is still priced and submitted.
\<close>

theorem order_still_processed_in_its_expiry_second:
  "(1700003600000 :: int) div 1000 = int (expires_at sample_view)
   \<and> getLimitOrder (orderResponse (sample_env StatusSuccessful)) 7 = Some sample_view
   \<and> checkAndExecuteOrder (sample_env StatusSuccessful) ready_executor 1700003600000 7 =
       (ready_executor,
        [QueryOrder 7, QueryPairs, GetAccount, SendTransaction 7 150000000000000 1000,
         GetTransaction, LogTxSuccessful])"
proof -
  have "(1700003600000 :: int) div 1000 = int (expires_at sample_view)"
    by (simp add: sample_view_def)
  moreover have "getLimitOrder (orderResponse (sample_env StatusSuccessful)) 7 = Some sample_view"
    by (simp add: sample_env_def getLimitOrder_sample)
  ultimately show ?thesis
    by (simp add: checkAndExecuteOrder_sample waitForTransaction_successful)
qed

subsection \<open>Configuration and status\<close>

lemma parseInt_60: "parseInt ''60'' = Finite 60"
  by (simp add: parseInt_def isStrWhiteSpaceChar_def digitValue_def double_eval)

lemma parseInt_30: "parseInt ''30'' = Finite 30"
  by (simp add: parseInt_def isStrWhiteSpaceChar_def digitValue_def double_eval)

lemma sample_config:
  "LIMIT_ORDER_CONFIG sample_environment =
     \<lparr> enabled = True, checkIntervalSeconds = Finite 60, executorPemPath = ''./executor-wallet.pem'' \<rparr>"
  by (simp add: LIMIT_ORDER_CONFIG_def sample_environment_def orDefault_def parseInt_60)

lemma sample_backend_eq:
  "sample_backend =
     \<lparr> backendConfig = \<lparr> enabled = True, checkIntervalSeconds = Finite 60,
                         executorPemPath = ''./executor-wallet.pem'' \<rparr>,
       limitOrderExecutor = ready_executor,
       sweepPeriod = Some 30000 \<rparr>"
  by (simp add: sample_backend_def index_main_def sample_config initializeExecutorWallet_def
      sample_files_def start_def checkAndExecuteOrders_def new_LimitOrderExecutor_def
      ready_executor_def Let_def)

lemma checkAndExecuteOrder_checkInterval:
  "checkInterval (fst (checkAndExecuteOrder env ex now orderId)) = checkInterval ex"
  by (simp add: checkAndExecuteOrder_def Let_def split: option.split prod.split sum.split)

lemma processOrders_checkInterval:
  "checkInterval (fst (processOrders items ex)) = checkInterval ex"
proof (induction items arbitrary: ex)
  case Nil
  show ?case by simp
next
  case (Cons item items)
  obtain orderId now env where item: "item = (orderId, now, env)"
    by (cases item)
  obtain ex1 evs1 where step: "checkAndExecuteOrder env ex now orderId = (ex1, evs1)"
    by (cases "checkAndExecuteOrder env ex now orderId")
  have "checkInterval ex1 = checkInterval ex"
    using checkAndExecuteOrder_checkInterval [of env ex now orderId] step by simp
  with Cons.IH [of ex1] item step show ?case
    by (cases "processOrders items ex1") simp
qed

lemma checkAndExecuteOrders_checkInterval:
  "checkInterval (fst (checkAndExecuteOrders items ex)) = checkInterval ex"
  by (simp add: checkAndExecuteOrders_def processOrders_checkInterval)

lemma start_period:
  assumes "start firstSweep ex = Inr (ex', evs, period)"
  shows "period = checkInterval ex"
proof -
  have "checkInterval (fst (checkAndExecuteOrders firstSweep (ex\<lparr>isRunning := True\<rparr>)))
        = checkInterval (ex\<lparr>isRunning := True\<rparr>)"
    by (rule checkAndExecuteOrders_checkInterval)
  with assms show ?thesis
    by (auto simp add: start_def Let_def split: if_splits prod.splits)
qed

lemma sweepPeriod_index_main:
  "sweepPeriod (index_main env files firstSweep) = None
   \<or> sweepPeriod (index_main env files firstSweep) = Some 30000"
proof -
  have "\<And>ex ex' evs period address.
          start firstSweep (new_LimitOrderExecutor\<lparr>executorAddress := Some address\<rparr>) = Inr (ex', evs, period)
          \<Longrightarrow> period = 30000"
    by (drule start_period) (simp add: new_LimitOrderExecutor_def)
  then show ?thesis
    by (auto simp add: index_main_def Let_def initializeExecutorWallet_def
        split: sum.splits option.splits prod.splits)
qed

text \<open>
  Claim C8 says that the executor waits the configured period between sweeps. With
  \<^verbatim>\<open>LIMIT_ORDER_CHECK_INTERVAL=60\<close> the configuration holds 60 seconds, and the running
  executor registers its sweep with a period of 30000 milliseconds.
\<close>

theorem configured_interval_is_not_the_sweep_period:
  "LIMIT_ORDER_CHECK_INTERVAL sample_environment = Some ''60''
   \<and> checkIntervalSeconds (backendConfig sample_backend) = Finite 60
   \<and> isRunning (limitOrderExecutor sample_backend)
   \<and> sweepPeriod sample_backend = Some 30000"
  by (simp add: sample_backend_eq sample_environment_def ready_executor_def)

text \<open>
  Claim C9 says that the body of \<^verbatim>\<open>GET /health\<close> holds the executor's running state
  under \<open>executor.running\<close>. The body has no member \<open>executor\<close>, and the member \<open>running\<close>
  of \<open>limitOrderExecutor\<close> is not the running flag.
\<close>

theorem health_body_has_no_executor_running_flag:
  "isRunning (limitOrderExecutor sample_backend)
   \<and> json_path [''executor'', ''running''] (snd (health sample_backend)) = None
   \<and> json_path [''limitOrderExecutor'', ''running''] (snd (health sample_backend))
       \<noteq> Some (JBool (isRunning (limitOrderExecutor sample_backend)))"
  by (simp add: sample_backend_eq health_def getStatus_def ready_executor_def)

text \<open>
  Claim C9, as amended. \<^verbatim>\<open>GET /health\<close> always responds with status 200 and the body
  \<open>{status: "ok", service: "stellarnova-backend", limitOrderExecutor: {enabled, running}}\<close>,
  where \<open>enabled\<close> is the configured flag and \<open>running\<close> is the whole status object of the
  executor, whose own member \<open>running\<close> is the running state.
\<close>

theorem health_response:
  "fst (health b) = 200
   \<and> snd (health b) =
       JObject
         [(''status'', JString ''ok''),
          (''service'', JString ''stellarnova-backend''),
          (''limitOrderExecutor'',
             JObject [(''enabled'', JBool (enabled (backendConfig b))),
                      (''running'', getStatus (limitOrderExecutor b))])]
   \<and> json_path [''limitOrderExecutor'', ''enabled''] (snd (health b))
       = Some (JBool (enabled (backendConfig b)))
   \<and> json_path [''limitOrderExecutor'', ''running'', ''running''] (snd (health b))
       = Some (JBool (isRunning (limitOrderExecutor b)))"
  by (simp add: health_def getStatus_def)

end
